theory Spec2Isabelle
  imports Complex_Main "HOL-Library.Sublist"
begin

section \<open>Python values used by the redaction pipeline\<close>

subsection \<open>Strings, bytes and paths\<close>

text \<open>
  A Python \<open>str\<close> is a sequence of Unicode code points, modelled as a list of naturals.
  File contents are byte strings; an Isabelle \<open>char\<close> is one byte, so a file is a
  \<open>string\<close>. Paths are only compared and concatenated and are kept as \<open>string\<close> too.
  \<open>lit\<close> embeds a source-code literal (all literals of the program are ASCII).
\<close>

type_synonym ustr = "nat list"
type_synonym bytes = string
type_synonym path = string

definition lit :: "string \<Rightarrow> ustr" where
  "lit s = map of_char s"

text \<open>\<open>str.isspace\<close> for one code point: the white-space table of CPython.\<close>

definition is_space :: "nat \<Rightarrow> bool" where
  "is_space c = ((9 \<le> c \<and> c \<le> 13) \<or> (28 \<le> c \<and> c \<le> 32) \<or> c = 133 \<or> c = 160
     \<or> c = 5760 \<or> (8192 \<le> c \<and> c \<le> 8202) \<or> c = 8232 \<or> c = 8233
     \<or> c = 8239 \<or> c = 8287 \<or> c = 12288)"

text \<open>\<open>s.strip()\<close>: leading and trailing white space removed.\<close>

definition str_strip :: "ustr \<Rightarrow> ustr" where
  "str_strip s = rev (dropWhile is_space (rev (dropWhile is_space s)))"

text \<open>
  \<open>s.lower()\<close>. On a string of ASCII code points it maps \<open>A\<close> to \<open>Z\<close> onto \<open>a\<close> to
  \<open>z\<close> and leaves the rest. On any other string the result is given by the case tables
  of the interpreter (there the Kelvin sign U+212A lowers to \<open>k\<close>, a capital sigma
  depends on its position, and so on); those tables are not part of the program and
  are taken as the parameter \<open>unicode_lower\<close>.
\<close>

definition lower_cp :: "nat \<Rightarrow> nat" where
  "lower_cp c = (if 65 \<le> c \<and> c \<le> 90 then c + 32 else c)"

fun is_ascii :: "ustr \<Rightarrow> bool" where
  "is_ascii [] = True"
| "is_ascii (c # cs) = (c < 128 \<and> is_ascii cs)"

definition str_lower :: "(ustr \<Rightarrow> ustr) \<Rightarrow> ustr \<Rightarrow> ustr" where
  "str_lower tables s = (if is_ascii s then map lower_cp s else tables s)"

text \<open>
  \<open>s.replace(old, new)\<close>: every non-overlapping occurrence, scanning from the left.
  For an empty \<open>old\<close> Python inserts \<open>new\<close> before every code point and at the end.
\<close>

fun replace_from :: "ustr \<Rightarrow> ustr \<Rightarrow> ustr \<Rightarrow> ustr" where
  "replace_from [] old new = []"
| "replace_from (c # cs) old new =
     (if old \<noteq> [] \<and> prefix old (c # cs)
      then new @ replace_from (drop (length old) (c # cs)) old new
      else c # replace_from cs old new)"

definition str_replace :: "ustr \<Rightarrow> ustr \<Rightarrow> ustr \<Rightarrow> ustr" where
  "str_replace s old new =
     (if old = [] then new @ concat (map (\<lambda>c. c # new) s) else replace_from s old new)"

text \<open>\<open>a in b\<close> on strings: \<open>a\<close> occurs in \<open>b\<close> as a contiguous block.\<close>

fun str_contains :: "ustr \<Rightarrow> ustr \<Rightarrow> bool" where
  "str_contains a [] = (a = [])"
| "str_contains a (c # cs) = (prefix a (c # cs) \<or> str_contains a cs)"

text \<open>\<open>str(n)\<close> for a non-negative integer.\<close>

fun str_of_nat :: "nat \<Rightarrow> ustr" where
  "str_of_nat n = (if n < 10 then [48 + n] else str_of_nat (n div 10) @ [48 + n mod 10])"

declare str_of_nat.simps [simp del]

subsection \<open>Codecs of text-mode files\<close>

text \<open>
  The strict UTF-8 decoder: shortest forms only, no surrogates, nothing above U+10FFFF.
  \<open>None\<close> is \<open>UnicodeDecodeError\<close>.
\<close>

definition is_cont :: "nat \<Rightarrow> bool" where
  "is_cont b = (128 \<le> b \<and> b < 192)"

fun utf8_decode_nat :: "nat list \<Rightarrow> ustr option" where
  "utf8_decode_nat [] = Some []"
| "utf8_decode_nat (b0 # bs) =
     (if b0 < 128 then map_option ((#) b0) (utf8_decode_nat bs)
      else if 194 \<le> b0 \<and> b0 < 224 then
        (case bs of
           b1 # r \<Rightarrow>
             if is_cont b1
             then map_option ((#) ((b0 - 192) * 64 + (b1 - 128))) (utf8_decode_nat r)
             else None
         | _ \<Rightarrow> None)
      else if 224 \<le> b0 \<and> b0 < 240 then
        (case bs of
           b1 # b2 # r \<Rightarrow>
             if is_cont b1 \<and> is_cont b2
                \<and> (if b0 = 224 then 160 \<le> b1 else True)
                \<and> (if b0 = 237 then b1 < 160 else True)
             then map_option
                    ((#) ((b0 - 224) * 4096 + (b1 - 128) * 64 + (b2 - 128)))
                    (utf8_decode_nat r)
             else None
         | _ \<Rightarrow> None)
      else if 240 \<le> b0 \<and> b0 < 245 then
        (case bs of
           b1 # b2 # b3 # r \<Rightarrow>
             if is_cont b1 \<and> is_cont b2 \<and> is_cont b3
                \<and> (if b0 = 240 then 144 \<le> b1 else True)
                \<and> (if b0 = 244 then b1 < 144 else True)
             then map_option
                    ((#) ((b0 - 240) * 262144 + (b1 - 128) * 4096 + (b2 - 128) * 64
                          + (b3 - 128)))
                    (utf8_decode_nat r)
             else None
         | _ \<Rightarrow> None)
      else None)"

definition utf8_decode :: "bytes \<Rightarrow> ustr option" where
  "utf8_decode b = utf8_decode_nat (map of_char b)"

text \<open>Latin-1 maps byte \<open>n\<close> to code point \<open>n\<close>; it never fails.\<close>

definition latin1_decode :: "bytes \<Rightarrow> ustr" where
  "latin1_decode b = map of_char b"

text \<open>
  The UTF-8 encoder. \<open>None\<close> is \<open>UnicodeEncodeError\<close>: a lone surrogate (which
  \<open>json.loads\<close> can produce) has no encoding.
\<close>

definition utf8_encode_cp :: "nat \<Rightarrow> nat list option" where
  "utf8_encode_cp c =
     (if c < 128 then Some [c]
      else if c < 2048 then Some [192 + c div 64, 128 + c mod 64]
      else if 55296 \<le> c \<and> c < 57344 then None
      else if c < 65536 then
        Some [224 + c div 4096, 128 + (c div 64) mod 64, 128 + c mod 64]
      else if c < 1114112 then
        Some [240 + c div 262144, 128 + (c div 4096) mod 64, 128 + (c div 64) mod 64,
              128 + c mod 64]
      else None)"

fun utf8_encode_nat :: "ustr \<Rightarrow> nat list option" where
  "utf8_encode_nat [] = Some []"
| "utf8_encode_nat (c # cs) =
     (case utf8_encode_cp c of
        None \<Rightarrow> None
      | Some bs \<Rightarrow> map_option ((@) bs) (utf8_encode_nat cs))"

definition utf8_encode :: "ustr \<Rightarrow> bytes option" where
  "utf8_encode s = map_option (map char_of) (utf8_encode_nat s)"

text \<open>
  Text mode with the default \<open>newline=None\<close>: on reading, \<open>\r\n\<close> and a lone \<open>\r\<close>
  become \<open>\n\<close>; on writing, \<open>\n\<close> becomes the platform's line separator.
\<close>

fun universal_newlines :: "ustr \<Rightarrow> ustr" where
  "universal_newlines [] = []"
| "universal_newlines [c] = (if c = 13 then [10] else [c])"
| "universal_newlines (c # d # cs) =
     (if c = 13 \<and> d = 10 then 10 # universal_newlines cs
      else if c = 13 then 10 # universal_newlines (d # cs)
      else c # universal_newlines (d # cs))"

definition write_newlines :: "ustr \<Rightarrow> ustr \<Rightarrow> ustr" where
  "write_newlines linesep s = concat (map (\<lambda>c. if c = 10 then linesep else [c]) s)"

subsection \<open>Exceptions\<close>

text \<open>
  The instances of \<open>Exception\<close> that the program can meet. \<open>LibraryError\<close> is any other
  exception raised by an external library; \<open>Exception m\<close> is \<open>raise Exception(m)\<close> of
  the program itself.
\<close>

datatype exn =
    KeyError ustr
  | TypeError
  | AttributeError
  | ValueError
  | UnicodeDecodeError
  | UnicodeEncodeError
  | FileNotFoundError
  | FileExistsError
  | ImportError
  | JSONDecodeError
  | RecursionError
  | LibraryError ustr
  | Exception ustr

definition bind :: "exn + 'a \<Rightarrow> ('a \<Rightarrow> exn + 'b) \<Rightarrow> exn + 'b" where
  "bind m f = (case m of Inl e \<Rightarrow> Inl e | Inr x \<Rightarrow> f x)"

subsection \<open>Dynamically typed values\<close>

text \<open>
  What \<open>json.loads\<close> returns and what the dictionaries of the program hold. Numbers are
  the finite ones (\<open>int\<close> and \<open>float\<close> compare by value); a dictionary is an association
  list read with \<open>map_of\<close>.
\<close>

datatype pyval =
    PNone
  | PBool bool
  | PNum real
  | PStr ustr
  | PList "pyval list"
  | PDict "(ustr \<times> pyval) list"

text \<open>Truth value of an object, as \<open>if x:\<close> and \<open>not x\<close> take it.\<close>

fun truthy :: "pyval \<Rightarrow> bool" where
  "truthy PNone = False"
| "truthy (PBool b) = b"
| "truthy (PNum r) = (r \<noteq> 0)"
| "truthy (PStr s) = (s \<noteq> [])"
| "truthy (PList xs) = (xs \<noteq> [])"
| "truthy (PDict kvs) = (kvs \<noteq> [])"

text \<open>\<open>d.get(k, default)\<close>: only a dictionary has the method.\<close>

fun dict_get :: "pyval \<Rightarrow> ustr \<Rightarrow> pyval \<Rightarrow> exn + pyval" where
  "dict_get (PDict kvs) k dflt = Inr (case map_of kvs k of None \<Rightarrow> dflt | Some v \<Rightarrow> v)"
| "dict_get _ k dflt = Inl AttributeError"

text \<open>\<open>d[k]\<close> with a string key.\<close>

fun subscript :: "pyval \<Rightarrow> ustr \<Rightarrow> exn + pyval" where
  "subscript (PDict kvs) k = (case map_of kvs k of None \<Rightarrow> Inl (KeyError k) | Some v \<Rightarrow> Inr v)"
| "subscript _ k = Inl TypeError"

text \<open>\<open>x >= t\<close> for a float \<open>t\<close>: numbers and booleans compare, anything else raises.\<close>

fun py_ge :: "pyval \<Rightarrow> real \<Rightarrow> exn + bool" where
  "py_ge (PNum r) t = Inr (t \<le> r)"
| "py_ge (PBool b) t = Inr (t \<le> (if b then 1 else 0))"
| "py_ge _ t = Inl TypeError"

text \<open>\<open>for x in v\<close>: the items of a list, the characters of a string, the keys of a dictionary.\<close>

fun py_iter :: "pyval \<Rightarrow> exn + pyval list" where
  "py_iter (PList xs) = Inr xs"
| "py_iter (PStr s) = Inr (map (\<lambda>c. PStr [c]) s)"
| "py_iter (PDict kvs) = Inr (map (\<lambda>kv. PStr (fst kv)) kvs)"
| "py_iter _ = Inl TypeError"

section \<open>The oracle adapter (services/ollama\_service.py)\<close>

subsection \<open>The outside world\<close>

text \<open>
  What the program takes from its surroundings: the text of built-in and library
  exceptions (\<open>str(e)\<close>), the case tables behind \<open>str.lower\<close> for strings that are not
  ASCII, the language model behind \<open>client.chat\<close> (a function of the analysed text: the
  prompt around it is a fixed template), \<open>json.loads\<close>,
  \<open>Config.CONFIDENCE_THRESHOLD\<close>, the working directory, the random names that
  \<open>tempfile\<close> draws, and \<open>os.linesep\<close>.
\<close>

record env =
  exn_str :: "exn \<Rightarrow> ustr"
  unicode_lower :: "ustr \<Rightarrow> ustr"
  chat :: "ustr \<Rightarrow> exn + pyval"
  json_loads :: "ustr \<Rightarrow> exn + pyval"
  threshold :: real
  cwd :: path
  tmp_names :: "string list"
  linesep :: ustr

text \<open>
  The mutable world: the regular files by path, and the texts sent to the language
  model so far.
\<close>

record world =
  files :: "path \<rightharpoonup> bytes"
  oracle_log :: "ustr list"

text \<open>\<open>str(e)\<close>: the message of an exception the program raised itself is its argument.\<close>

definition str_exn :: "env \<Rightarrow> exn \<Rightarrow> ustr" where
  "str_exn env e = (case e of Exception m \<Rightarrow> m | _ \<Rightarrow> exn_str env e)"

subsection \<open>analyze\_text\_for\_pii\<close>

text \<open>\<open>json.loads(x)\<close> accepts a string only.\<close>

definition json_loads_val :: "env \<Rightarrow> pyval \<Rightarrow> exn + pyval" where
  "json_loads_val env v = (case v of PStr s \<Rightarrow> json_loads env s | _ \<Rightarrow> Inl TypeError)"

definition parse_failure_result :: "pyval \<Rightarrow> pyval" where
  "parse_failure_result result_text =
     PDict [(lit ''found_pii'', PBool True),
            (lit ''categories'', PList [PStr (lit ''unknown'')]),
            (lit ''details'', PList []),
            (lit ''recommendation'', PStr (lit ''Manual review recommended'')),
            (lit ''raw_response'', result_text)]"

definition analysis_failed_result :: "env \<Rightarrow> exn \<Rightarrow> pyval" where
  "analysis_failed_result env e =
     PDict [(lit ''found_pii'', PBool False),
            (lit ''categories'', PList []),
            (lit ''details'', PList []),
            (lit ''recommendation'', PStr (lit ''Analysis failed - manual review required'')),
            (lit ''error'', PStr (str_exn env e))]"

text \<open>The body of the outer \<open>try\<close>, with the inner \<open>try\<close> around \<open>json.loads\<close>.\<close>

definition analyze_body :: "env \<Rightarrow> ustr \<Rightarrow> exn + pyval" where
  "analyze_body env text =
     bind (chat env text) (\<lambda>response.
     bind (subscript response (lit ''message'')) (\<lambda>msg.
     bind (subscript msg (lit ''content'')) (\<lambda>result_text.
       case json_loads_val env result_text of
         Inr result \<Rightarrow> Inr result
       | Inl JSONDecodeError \<Rightarrow> Inr (parse_failure_result result_text)
       | Inl e \<Rightarrow> Inl e)))"

text \<open>
  The whole method: \<open>except Exception\<close> turns whatever the body raised into a result.
  The call is recorded in the world's log.
\<close>

definition analyze_text_for_pii :: "env \<Rightarrow> world \<Rightarrow> ustr \<Rightarrow> (exn + pyval) \<times> world" where
  "analyze_text_for_pii env w text =
     ((case analyze_body env text of
         Inr result \<Rightarrow> Inr result
       | Inl e \<Rightarrow> Inr (analysis_failed_result env e)),
      w\<lparr>oracle_log := oracle_log w @ [text]\<rparr>)"

subsection \<open>\_generate\_replacement\<close>

definition replacements :: "(ustr \<times> ustr) list" where
  "replacements =
     [(lit ''name'', lit ''[NAME REDACTED]''),
      (lit ''email'', lit ''[EMAIL REDACTED]''),
      (lit ''phone'', lit ''[PHONE REDACTED]''),
      (lit ''address'', lit ''[ADDRESS REDACTED]''),
      (lit ''credit_card'', lit ''[CARD NUMBER REDACTED]''),
      (lit ''ssn'', lit ''[SSN REDACTED]''),
      (lit ''bank_account'', lit ''[ACCOUNT NUMBER REDACTED]''),
      (lit ''id_number'', lit ''[ID NUMBER REDACTED]''),
      (lit ''date_of_birth'', lit ''[DOB REDACTED]''),
      (lit ''medical'', lit ''[MEDICAL INFO REDACTED]'')]"

text \<open>\<open>pii_type.lower()\<close> exists on strings only.\<close>

definition generate_replacement :: "env \<Rightarrow> pyval \<Rightarrow> exn + ustr" where
  "generate_replacement env pii_type =
     (case pii_type of
        PStr s \<Rightarrow>
          Inr (case map_of replacements (str_lower (unicode_lower env) s) of
                 None \<Rightarrow> lit ''[SENSITIVE INFO REDACTED]''
               | Some r \<Rightarrow> r)
      | _ \<Rightarrow> Inl AttributeError)"

subsection \<open>generate\_redaction\_suggestions\<close>

text \<open>
  The dictionary the method returns has the two keys \<open>needs_redaction\<close> and
  \<open>suggestions\<close> on every path, so it is a record; each suggestion stays a dictionary,
  because the applicators read it with \<open>get\<close> and defaults.
\<close>

record suggestion_set =
  needs_redaction :: bool
  suggestions :: "pyval list"

text \<open>The loop over the details; the first exception ends it.\<close>

fun collect_suggestions :: "env \<Rightarrow> real \<Rightarrow> pyval list \<Rightarrow> exn + pyval list" where
  "collect_suggestions env thr [] = Inr []"
| "collect_suggestions env thr (detail # rest) =
     bind (dict_get detail (lit ''confidence'') (PNum 0)) (\<lambda>c.
     bind (py_ge c thr) (\<lambda>keep.
       if keep then
         bind (subscript detail (lit ''text'')) (\<lambda>txt.
         bind (subscript detail (lit ''type'')) (\<lambda>ty.
         bind (generate_replacement env ty) (\<lambda>rep.
         bind (subscript detail (lit ''confidence'')) (\<lambda>conf.
         bind (collect_suggestions env thr rest) (\<lambda>more.
           Inr (PDict [(lit ''text'', txt),
                       (lit ''replacement'', PStr rep),
                       (lit ''type'', ty),
                       (lit ''confidence'', conf)] # more))))))
       else collect_suggestions env thr rest))"

definition generate_redaction_suggestions ::
  "env \<Rightarrow> real \<Rightarrow> pyval \<Rightarrow> exn + suggestion_set" where
  "generate_redaction_suggestions env thr analysis_result =
     bind (dict_get analysis_result (lit ''found_pii'') (PBool False)) (\<lambda>found.
       if \<not> truthy found then Inr \<lparr>needs_redaction = False, suggestions = []\<rparr>
       else
         bind (dict_get analysis_result (lit ''details'') (PList [])) (\<lambda>details.
         bind (py_iter details) (\<lambda>items.
         bind (collect_suggestions env thr items) (\<lambda>found_suggestions.
           Inr \<lparr>needs_redaction = (0 < length found_suggestions),
                suggestions = found_suggestions\<rparr>))))"

subsection \<open>The typed data model and its dictionaries\<close>

text \<open>
  The data model of the specification, and the dictionary each value is when it
  reaches the adapter (the keys are those of the JSON format the prompt asks for).
  Offsets are optional; the adapter never reads them.
\<close>

record finding =
  category :: ustr
  literal_text :: ustr
  confidence :: real
  start_offset :: "int option"
  end_offset :: "int option"

record analysis_result =
  found_pii :: bool
  categories :: "ustr list"
  findings :: "finding list"
  recommendation :: ustr
  raw_fallback :: "ustr option"

definition offset_entry :: "string \<Rightarrow> int option \<Rightarrow> (ustr \<times> pyval) list" where
  "offset_entry k v = (case v of None \<Rightarrow> [] | Some i \<Rightarrow> [(lit k, PNum (of_int i))])"

definition finding_dict :: "finding \<Rightarrow> pyval" where
  "finding_dict f =
     PDict ([(lit ''type'', PStr (category f)),
             (lit ''text'', PStr (literal_text f)),
             (lit ''confidence'', PNum (confidence f))]
            @ offset_entry ''start_pos'' (start_offset f)
            @ offset_entry ''end_pos'' (end_offset f))"

definition analysis_dict :: "analysis_result \<Rightarrow> pyval" where
  "analysis_dict r =
     PDict ([(lit ''found_pii'', PBool (found_pii r)),
             (lit ''categories'', PList (map PStr (categories r))),
             (lit ''details'', PList (map finding_dict (findings r))),
             (lit ''recommendation'', PStr (recommendation r))]
            @ (case raw_fallback r of None \<Rightarrow> [] | Some t \<Rightarrow> [(lit ''raw_response'', PStr t)]))"

text \<open>The suggestion that the specification derives from a finding.\<close>

definition suggestion_dict :: "env \<Rightarrow> finding \<Rightarrow> pyval" where
  "suggestion_dict env f =
     PDict [(lit ''text'', PStr (literal_text f)),
            (lit ''replacement'',
               PStr (case map_of replacements (str_lower (unicode_lower env) (category f)) of
                       None \<Rightarrow> lit ''[SENSITIVE INFO REDACTED]''
                     | Some r \<Rightarrow> r)),
            (lit ''type'', PStr (category f)),
            (lit ''confidence'', PNum (confidence f))]"

text \<open>
  The replacement the specification describes: the category in capitals between
  \<open>[\<close> and \<open> REDACTED]\<close>.
\<close>

definition upper_cp :: "nat \<Rightarrow> nat" where
  "upper_cp c = (if 97 \<le> c \<and> c \<le> 122 then c - 32 else c)"

definition spec_template :: "ustr \<Rightarrow> ustr" where
  "spec_template c = lit ''['' @ map upper_cp c @ lit '' REDACTED]''"

section \<open>The processors (processors/*.py)\<close>

subsection \<open>Files and paths\<close>

text \<open>
  \<open>open(p, 'r', encoding=...)\<close> followed by \<open>read()\<close>: the file must exist and its bytes
  must decode; the text comes back with its line ends translated. Of the failures of the
  operating system only the missing file is modelled for text files (no permission
  errors, no full disk).
\<close>

definition read_text :: "world \<Rightarrow> path \<Rightarrow> (bytes \<Rightarrow> ustr option) \<Rightarrow> exn + ustr" where
  "read_text w p decode =
     (case files w p of
        None \<Rightarrow> Inl FileNotFoundError
      | Some b \<Rightarrow>
          (case decode b of
             None \<Rightarrow> Inl UnicodeDecodeError
           | Some s \<Rightarrow> Inr (universal_newlines s)))"

text \<open>
  \<open>open(p, 'w', encoding='utf-8')\<close> followed by \<open>write(s)\<close>: opening creates or empties
  the file; when the text cannot be encoded, nothing is written into it.
\<close>

definition write_text_utf8 :: "env \<Rightarrow> world \<Rightarrow> path \<Rightarrow> ustr \<Rightarrow> (exn + unit) \<times> world" where
  "write_text_utf8 env w p s =
     (case utf8_encode (write_newlines (linesep env) s) of
        None \<Rightarrow> (Inl UnicodeEncodeError, w\<lparr>files := (files w)(p \<mapsto> [])\<rparr>)
      | Some b \<Rightarrow> (Inr (), w\<lparr>files := (files w)(p \<mapsto> b)\<rparr>))"

text \<open>\<open>os.path.join\<close> and \<open>os.path.basename\<close> of \<open>posixpath\<close>.\<close>

definition path_join :: "path \<Rightarrow> path \<Rightarrow> path" where
  "path_join a b =
     (if prefix ''/'' b then b
      else if a = [] \<or> suffix ''/'' a then a @ b
      else a @ ''/'' @ b)"

definition basename :: "path \<Rightarrow> path" where
  "basename p = rev (takeWhile (\<lambda>c. c \<noteq> CHR ''/'') (rev p))"

subsection \<open>base\_processor.py\<close>

text \<open>
  \<open>create_temp_file\<close>: \<open>NamedTemporaryFile(dir=cwd/temp, suffix="_" + name, delete=False)\<close>
  creates, exclusively, an empty file named \<open>tmp\<close>, a random name and the suffix, and
  keeps it. The random names are tried in turn; a name that exists is skipped, and
  \<open>FileExistsError\<close> is raised when all are taken. The processors pass a base name, which
  holds no \<open>/\<close>.
\<close>

definition create_temp_file :: "env \<Rightarrow> world \<Rightarrow> string \<Rightarrow> exn + (path \<times> world)" where
  "create_temp_file env w original_filename =
     (let temp_dir = path_join (cwd env) ''temp'';
          candidates =
            map (\<lambda>r. path_join temp_dir (''tmp'' @ r @ ''_'' @ original_filename))
              (tmp_names env)
      in case find (\<lambda>p. files w p = None) candidates of
           None \<Rightarrow> Inl FileExistsError
         | Some p \<Rightarrow> Inr (p, w\<lparr>files := (files w)(p \<mapsto> [])\<rparr>))"

record processing_result =
  success :: bool
  message :: ustr
  extracted_text :: ustr
  output_file :: "path option"
  pii_found :: bool
  redaction_count :: nat

text \<open>\<open>ProcessingResult(success=..., message=...)\<close>: the other fields take their defaults.\<close>

definition ProcessingResult :: "bool \<Rightarrow> ustr \<Rightarrow> processing_result" where
  "ProcessingResult ok msg =
     \<lparr>success = ok, message = msg, extracted_text = [], output_file = None,
      pii_found = False, redaction_count = 0\<rparr>"

subsection \<open>txt\_processor.py\<close>

definition txt_extract_text :: "env \<Rightarrow> world \<Rightarrow> path \<Rightarrow> exn + ustr" where
  "txt_extract_text env w file_path =
     (case read_text w file_path utf8_decode of
        Inr content \<Rightarrow> Inr content
      | Inl UnicodeDecodeError \<Rightarrow>
          (case read_text w file_path (\<lambda>b. Some (latin1_decode b)) of
             Inr content \<Rightarrow> Inr content
           | Inl e \<Rightarrow> Inl (Exception (lit ''Failed to read text file: '' @ str_exn env e)))
      | Inl e \<Rightarrow> Inl (Exception (lit ''Failed to extract text: '' @ str_exn env e)))"

text \<open>\<open>content.replace(old, new)\<close> takes strings only.\<close>

definition py_replace :: "ustr \<Rightarrow> pyval \<Rightarrow> pyval \<Rightarrow> exn + ustr" where
  "py_replace content old new =
     (case old of
        PStr a \<Rightarrow> (case new of PStr b \<Rightarrow> Inr (str_replace content a b) | _ \<Rightarrow> Inl TypeError)
      | _ \<Rightarrow> Inl TypeError)"

text \<open>The loop of \<open>apply_redactions\<close> over the redactions, on the text read so far.\<close>

fun txt_redact :: "ustr \<Rightarrow> pyval list \<Rightarrow> exn + ustr" where
  "txt_redact content [] = Inr content"
| "txt_redact content (redaction # rest) =
     bind (dict_get redaction (lit ''text'') (PStr [])) (\<lambda>text_to_redact.
     bind (dict_get redaction (lit ''replacement'') (PStr (lit ''[REDACTED]''))) (\<lambda>replacement.
       if truthy text_to_redact then
         bind (py_replace content text_to_redact replacement) (\<lambda>redacted_content.
           txt_redact redacted_content rest)
       else txt_redact content rest))"

text \<open>Any exception inside the \<open>try\<close> makes the method return \<open>False\<close>.\<close>

definition txt_apply_redactions ::
  "env \<Rightarrow> world \<Rightarrow> path \<Rightarrow> pyval list \<Rightarrow> path \<Rightarrow> bool \<times> world" where
  "txt_apply_redactions env w file_path redactions output_path =
     (case bind (read_text w file_path utf8_decode) (\<lambda>content. txt_redact content redactions) of
        Inl e \<Rightarrow> (False, w)
      | Inr redacted_content \<Rightarrow>
          (case write_text_utf8 env w output_path redacted_content of
             (Inl e, w') \<Rightarrow> (False, w')
           | (Inr u, w') \<Rightarrow> (True, w')))"

definition txt_process_body :: "env \<Rightarrow> world \<Rightarrow> path \<Rightarrow> (exn + processing_result) \<times> world" where
  "txt_process_body env w file_path =
     (case txt_extract_text env w file_path of
        Inl e \<Rightarrow> (Inl e, w)
      | Inr extracted \<Rightarrow>
          if str_strip extracted = []
          then (Inr (ProcessingResult False (lit ''No text content found in file'')), w)
          else
            (case analyze_text_for_pii env w extracted of
               (Inl e, w1) \<Rightarrow> (Inl e, w1)
             | (Inr pii_analysis, w1) \<Rightarrow>
                 (case dict_get pii_analysis (lit ''found_pii'') (PBool False) of
                    Inl e \<Rightarrow> (Inl e, w1)
                  | Inr found \<Rightarrow>
                      if \<not> truthy found
                      then (Inr \<lparr>success = True,
                                 message = lit ''No sensitive information detected in text file'',
                                 extracted_text = extracted, output_file = None,
                                 pii_found = False, redaction_count = 0\<rparr>, w1)
                      else
                        (case generate_redaction_suggestions env (threshold env) pii_analysis of
                           Inl e \<Rightarrow> (Inl e, w1)
                         | Inr redaction_suggestions \<Rightarrow>
                             if \<not> needs_redaction redaction_suggestions
                             then (Inr \<lparr>success = True,
                                        message =
                                          lit ''No redactions needed based on confidence threshold'',
                                        extracted_text = extracted, output_file = None,
                                        pii_found = True, redaction_count = 0\<rparr>, w1)
                             else
                               (case create_temp_file env w1 (''redacted_'' @ basename file_path) of
                                  Inl e \<Rightarrow> (Inl e, w1)
                                | Inr (output_path, w2) \<Rightarrow>
                                    (case txt_apply_redactions env w2 file_path
                                            (suggestions redaction_suggestions) output_path of
                                       (True, w3) \<Rightarrow>
                                         (Inr \<lparr>success = True,
                                               message =
                                                 lit ''Successfully redacted ''
                                                 @ str_of_nat
                                                     (length (suggestions redaction_suggestions))
                                                 @ lit '' sensitive items'',
                                               extracted_text = extracted,
                                               output_file = Some output_path,
                                               pii_found = True,
                                               redaction_count =
                                                 length (suggestions redaction_suggestions)\<rparr>,
                                          w3)
                                     | (False, w3) \<Rightarrow>
                                         (Inr (ProcessingResult False
                                                 (lit ''Failed to apply redactions to text file'')),
                                          w3)))))))"

definition txt_process_file :: "env \<Rightarrow> world \<Rightarrow> path \<Rightarrow> processing_result \<times> world" where
  "txt_process_file env w file_path =
     (case txt_process_body env w file_path of
        (Inr result, w') \<Rightarrow> (result, w')
      | (Inl e, w') \<Rightarrow>
          (ProcessingResult False (lit ''Error processing text file: '' @ str_exn env e), w'))"

subsection \<open>pdf\_processor.py\<close>

text \<open>
  PyMuPDF is outside the repository; the processor is modelled for any behaviour of it.
  A document is a value that the library's operations take and return: parsing the bytes
  of a file, counting pages, the text of a page, the rectangles where a text occurs on a
  page, marking a rectangle (with its fill colour), committing a page's marks, and
  serialising for \<open>save\<close>. Each may raise. The library writes nowhere but at the path
  given to \<open>save\<close>, and a \<open>save\<close> that raises is taken to leave the file system as it
  was.
\<close>

record ('doc, 'rect) fitz =
  fitz_installed :: bool
  fitz_open :: "bytes \<Rightarrow> exn + 'doc"
  page_count :: "'doc \<Rightarrow> nat"
  get_text :: "'doc \<Rightarrow> nat \<Rightarrow> exn + ustr"
  search_for :: "'doc \<Rightarrow> nat \<Rightarrow> pyval \<Rightarrow> exn + 'rect list"
  add_redact_annot :: "'doc \<Rightarrow> nat \<Rightarrow> 'rect \<Rightarrow> exn + 'doc"
  apply_page_redactions :: "'doc \<Rightarrow> nat \<Rightarrow> exn + 'doc"
  save :: "'doc \<Rightarrow> path \<Rightarrow> exn + bytes"

definition open_document :: "('doc, 'rect) fitz \<Rightarrow> world \<Rightarrow> path \<Rightarrow> exn + 'doc" where
  "open_document lib w file_path =
     (case files w file_path of
        None \<Rightarrow> Inl FileNotFoundError
      | Some b \<Rightarrow> fitz_open lib b)"

definition page_break :: ustr where
  "page_break = [10] @ lit ''---PAGE BREAK---'' @ [10]"

fun pdf_page_texts :: "('doc, 'rect) fitz \<Rightarrow> 'doc \<Rightarrow> nat list \<Rightarrow> ustr \<Rightarrow> exn + ustr" where
  "pdf_page_texts lib doc [] text_content = Inr text_content"
| "pdf_page_texts lib doc (page_num # others) text_content =
     bind (get_text lib doc page_num) (\<lambda>t.
       pdf_page_texts lib doc others (text_content @ t @ page_break))"

definition pdf_extract_text ::
  "env \<Rightarrow> ('doc, 'rect) fitz \<Rightarrow> world \<Rightarrow> path \<Rightarrow> exn + ustr" where
  "pdf_extract_text env lib w file_path =
     (case (if \<not> fitz_installed lib then Inl ImportError
            else bind (open_document lib w file_path) (\<lambda>doc.
                   pdf_page_texts lib doc [0..<page_count lib doc] [])) of
        Inr text_content \<Rightarrow> Inr text_content
      | Inl ImportError \<Rightarrow> Inl (Exception (lit ''PDF processing library not available''))
      | Inl e \<Rightarrow>
          Inl (Exception (lit ''Failed to extract text from PDF: '' @ str_exn env e)))"

fun pdf_annotate :: "('doc, 'rect) fitz \<Rightarrow> 'doc \<Rightarrow> nat \<Rightarrow> 'rect list \<Rightarrow> exn + 'doc" where
  "pdf_annotate lib doc page_num [] = Inr doc"
| "pdf_annotate lib doc page_num (inst # others) =
     bind (add_redact_annot lib doc page_num inst) (\<lambda>doc'.
       pdf_annotate lib doc' page_num others)"

fun pdf_redact_page ::
  "('doc, 'rect) fitz \<Rightarrow> 'doc \<Rightarrow> nat \<Rightarrow> pyval list \<Rightarrow> exn + 'doc" where
  "pdf_redact_page lib doc page_num [] = Inr doc"
| "pdf_redact_page lib doc page_num (redaction # rest) =
     bind (dict_get redaction (lit ''text'') (PStr [])) (\<lambda>text_to_redact.
       if \<not> truthy text_to_redact then pdf_redact_page lib doc page_num rest
       else
         bind (search_for lib doc page_num text_to_redact) (\<lambda>text_instances.
         bind (pdf_annotate lib doc page_num text_instances) (\<lambda>doc'.
           pdf_redact_page lib doc' page_num rest)))"

fun pdf_redact_pages ::
  "('doc, 'rect) fitz \<Rightarrow> 'doc \<Rightarrow> nat list \<Rightarrow> pyval list \<Rightarrow> exn + 'doc" where
  "pdf_redact_pages lib doc [] redactions = Inr doc"
| "pdf_redact_pages lib doc (page_num # others) redactions =
     bind (pdf_redact_page lib doc page_num redactions) (\<lambda>doc1.
     bind (apply_page_redactions lib doc1 page_num) (\<lambda>doc2.
       pdf_redact_pages lib doc2 others redactions))"

definition pdf_apply_redactions ::
  "('doc, 'rect) fitz \<Rightarrow> world \<Rightarrow> path \<Rightarrow> pyval list \<Rightarrow> path \<Rightarrow> bool \<times> world" where
  "pdf_apply_redactions lib w file_path redactions output_path =
     (case (if \<not> fitz_installed lib then Inl ImportError
            else bind (open_document lib w file_path) (\<lambda>doc.
                 bind (pdf_redact_pages lib doc [0..<page_count lib doc] redactions) (\<lambda>doc'.
                   save lib doc' output_path))) of
        Inl e \<Rightarrow> (False, w)
      | Inr b \<Rightarrow> (True, w\<lparr>files := (files w)(output_path \<mapsto> b)\<rparr>))"

definition pdf_process_body ::
  "env \<Rightarrow> ('doc, 'rect) fitz \<Rightarrow> world \<Rightarrow> path \<Rightarrow> (exn + processing_result) \<times> world" where
  "pdf_process_body env lib w file_path =
     (case pdf_extract_text env lib w file_path of
        Inl e \<Rightarrow> (Inl e, w)
      | Inr extracted \<Rightarrow>
          if str_strip extracted = []
          then (Inr (ProcessingResult False (lit ''No text found in PDF file'')), w)
          else
            (case analyze_text_for_pii env w extracted of
               (Inl e, w1) \<Rightarrow> (Inl e, w1)
             | (Inr pii_analysis, w1) \<Rightarrow>
                 (case dict_get pii_analysis (lit ''found_pii'') (PBool False) of
                    Inl e \<Rightarrow> (Inl e, w1)
                  | Inr found \<Rightarrow>
                      if \<not> truthy found
                      then (Inr \<lparr>success = True,
                                 message = lit ''No sensitive information detected in PDF'',
                                 extracted_text = extracted, output_file = None,
                                 pii_found = False, redaction_count = 0\<rparr>, w1)
                      else
                        (case generate_redaction_suggestions env (threshold env) pii_analysis of
                           Inl e \<Rightarrow> (Inl e, w1)
                         | Inr redaction_suggestions \<Rightarrow>
                             if \<not> needs_redaction redaction_suggestions
                             then (Inr \<lparr>success = True,
                                        message =
                                          lit ''No redactions needed based on confidence threshold'',
                                        extracted_text = extracted, output_file = None,
                                        pii_found = True, redaction_count = 0\<rparr>, w1)
                             else
                               (case create_temp_file env w1 (''redacted_'' @ basename file_path) of
                                  Inl e \<Rightarrow> (Inl e, w1)
                                | Inr (output_path, w2) \<Rightarrow>
                                    (case pdf_apply_redactions lib w2 file_path
                                            (suggestions redaction_suggestions) output_path of
                                       (True, w3) \<Rightarrow>
                                         (Inr \<lparr>success = True,
                                               message =
                                                 lit ''Successfully redacted ''
                                                 @ str_of_nat
                                                     (length (suggestions redaction_suggestions))
                                                 @ lit '' sensitive items'',
                                               extracted_text = extracted,
                                               output_file = Some output_path,
                                               pii_found = True,
                                               redaction_count =
                                                 length (suggestions redaction_suggestions)\<rparr>,
                                          w3)
                                     | (False, w3) \<Rightarrow>
                                         (Inr (ProcessingResult False
                                                 (lit ''Failed to apply redactions to PDF'')),
                                          w3)))))))"

definition pdf_process_file ::
  "env \<Rightarrow> ('doc, 'rect) fitz \<Rightarrow> world \<Rightarrow> path \<Rightarrow> processing_result \<times> world" where
  "pdf_process_file env lib w file_path =
     (case pdf_process_body env lib w file_path of
        (Inr result, w') \<Rightarrow> (result, w')
      | (Inl e, w') \<Rightarrow>
          (ProcessingResult False (lit ''Error processing PDF: '' @ str_exn env e), w'))"

subsection \<open>image\_processor.py\<close>

text \<open>
  Pillow and EasyOCR are outside the repository as well. An OCR pass over the bytes of a
  file gives a list of (corner points, text, confidence); an image is a value that
  drawing takes and returns. Both passes over a file (extraction and redaction) are
  taken to read the same list. The libraries write nowhere but at the path given to
  \<open>save\<close>, and a \<open>save\<close> that raises is taken to leave the file system as it was.
\<close>

type_synonym bbox = "(real \<times> real) list"
type_synonym ocr_result = "bbox \<times> ustr \<times> real"

record 'img imaging =
  pil_installed :: bool
  easyocr_installed :: bool
  image_open :: "bytes \<Rightarrow> exn + 'img"
  readtext :: "bytes \<Rightarrow> exn + ocr_result list"
  draw_rectangle :: "'img \<Rightarrow> real \<times> real \<times> real \<times> real \<Rightarrow> exn + 'img"
  image_save :: "'img \<Rightarrow> path \<Rightarrow> exn + bytes"

definition ocr_file :: "'img imaging \<Rightarrow> world \<Rightarrow> path \<Rightarrow> exn + ocr_result list" where
  "ocr_file lib w file_path =
     (case files w file_path of
        None \<Rightarrow> Inl FileNotFoundError
      | Some b \<Rightarrow> readtext lib b)"

definition open_image :: "'img imaging \<Rightarrow> world \<Rightarrow> path \<Rightarrow> exn + 'img" where
  "open_image lib w file_path =
     (case files w file_path of
        None \<Rightarrow> Inl FileNotFoundError
      | Some b \<Rightarrow> image_open lib b)"

text \<open>The fragments above the OCR floor, each followed by a blank.\<close>

fun ocr_text :: "ocr_result list \<Rightarrow> ustr" where
  "ocr_text [] = []"
| "ocr_text ((bbox, t, conf) # others) =
     (if 0.5 < conf then t @ [32] @ ocr_text others else ocr_text others)"

definition img_extract_text :: "env \<Rightarrow> 'img imaging \<Rightarrow> world \<Rightarrow> path \<Rightarrow> exn + ustr" where
  "img_extract_text env lib w file_path =
     (case (if \<not> easyocr_installed lib then Inl ImportError
            else bind (ocr_file lib w file_path) (\<lambda>results.
                   Inr (str_strip (ocr_text results)))) of
        Inr extracted \<Rightarrow> Inr extracted
      | Inl ImportError \<Rightarrow> Inl (Exception (lit ''OCR processing library not available''))
      | Inl e \<Rightarrow>
          Inl (Exception (lit ''Failed to extract text from image: '' @ str_exn env e)))"

text \<open>\<open>min\<close> and \<open>max\<close> of the corner coordinates; they raise on an empty sequence.\<close>

definition bbox_extent :: "bbox \<Rightarrow> exn + real \<times> real \<times> real \<times> real" where
  "bbox_extent bbox =
     (case bbox of
        [] \<Rightarrow> Inl ValueError
      | p # ps \<Rightarrow>
          Inr (fold min (map fst ps) (fst p), fold min (map snd ps) (snd p),
               fold max (map fst ps) (fst p), fold max (map snd ps) (snd p)))"

fun img_draw_matches ::
  "env \<Rightarrow> 'img imaging \<Rightarrow> 'img \<Rightarrow> ustr \<Rightarrow> ocr_result list \<Rightarrow> exn + 'img" where
  "img_draw_matches env lib img text_to_redact [] = Inr img"
| "img_draw_matches env lib img text_to_redact ((bbox, detected_text, conf) # others) =
     (if 0.5 < conf \<and> str_contains (str_lower (unicode_lower env) text_to_redact)
                     (str_lower (unicode_lower env) detected_text)
      then
        bind (bbox_extent bbox) (\<lambda>box.
        bind (draw_rectangle lib img box) (\<lambda>img'.
          img_draw_matches env lib img' text_to_redact others))
      else img_draw_matches env lib img text_to_redact others)"

text \<open>\<open>v.strip()\<close> exists on strings only.\<close>

definition py_strip :: "pyval \<Rightarrow> exn + ustr" where
  "py_strip v = (case v of PStr s \<Rightarrow> Inr (str_strip s) | _ \<Rightarrow> Inl AttributeError)"

fun img_redact ::
  "env \<Rightarrow> 'img imaging \<Rightarrow> 'img \<Rightarrow> pyval list \<Rightarrow> ocr_result list \<Rightarrow> exn + 'img" where
  "img_redact env lib img [] ocr_results = Inr img"
| "img_redact env lib img (redaction # rest) ocr_results =
     bind (dict_get redaction (lit ''text'') (PStr [])) (\<lambda>v.
     bind (py_strip v) (\<lambda>text_to_redact.
       if text_to_redact = [] then img_redact env lib img rest ocr_results
       else
         bind (img_draw_matches env lib img text_to_redact ocr_results) (\<lambda>img'.
           img_redact env lib img' rest ocr_results)))"

definition img_apply_redactions ::
  "env \<Rightarrow> 'img imaging \<Rightarrow> world \<Rightarrow> path \<Rightarrow> pyval list \<Rightarrow> path \<Rightarrow> bool \<times> world" where
  "img_apply_redactions env lib w file_path redactions output_path =
     (case (if \<not> (pil_installed lib \<and> easyocr_installed lib) then Inl ImportError
            else bind (open_image lib w file_path) (\<lambda>img.
                 bind (ocr_file lib w file_path) (\<lambda>ocr_results.
                 bind (img_redact env lib img redactions ocr_results) (\<lambda>img'.
                   image_save lib img' output_path)))) of
        Inl e \<Rightarrow> (False, w)
      | Inr b \<Rightarrow> (True, w\<lparr>files := (files w)(output_path \<mapsto> b)\<rparr>))"

definition img_process_body ::
  "env \<Rightarrow> 'img imaging \<Rightarrow> world \<Rightarrow> path \<Rightarrow> (exn + processing_result) \<times> world" where
  "img_process_body env lib w file_path =
     (case img_extract_text env lib w file_path of
        Inl e \<Rightarrow> (Inl e, w)
      | Inr extracted \<Rightarrow>
          if str_strip extracted = []
          then (Inr \<lparr>success = True, message = lit ''No text detected in image'',
                     extracted_text = [], output_file = None,
                     pii_found = False, redaction_count = 0\<rparr>, w)
          else
            (case analyze_text_for_pii env w extracted of
               (Inl e, w1) \<Rightarrow> (Inl e, w1)
             | (Inr pii_analysis, w1) \<Rightarrow>
                 (case dict_get pii_analysis (lit ''found_pii'') (PBool False) of
                    Inl e \<Rightarrow> (Inl e, w1)
                  | Inr found \<Rightarrow>
                      if \<not> truthy found
                      then (Inr \<lparr>success = True,
                                 message =
                                   lit ''No sensitive information detected in image text'',
                                 extracted_text = extracted, output_file = None,
                                 pii_found = False, redaction_count = 0\<rparr>, w1)
                      else
                        (case generate_redaction_suggestions env (threshold env) pii_analysis of
                           Inl e \<Rightarrow> (Inl e, w1)
                         | Inr redaction_suggestions \<Rightarrow>
                             if \<not> needs_redaction redaction_suggestions
                             then (Inr \<lparr>success = True,
                                        message =
                                          lit ''No redactions needed based on confidence threshold'',
                                        extracted_text = extracted, output_file = None,
                                        pii_found = True, redaction_count = 0\<rparr>, w1)
                             else
                               (case create_temp_file env w1 (''redacted_'' @ basename file_path) of
                                  Inl e \<Rightarrow> (Inl e, w1)
                                | Inr (output_path, w2) \<Rightarrow>
                                    (case img_apply_redactions env lib w2 file_path
                                            (suggestions redaction_suggestions) output_path of
                                       (True, w3) \<Rightarrow>
                                         (Inr \<lparr>success = True,
                                               message =
                                                 lit ''Successfully redacted ''
                                                 @ str_of_nat
                                                     (length (suggestions redaction_suggestions))
                                                 @ lit '' sensitive items from image'',
                                               extracted_text = extracted,
                                               output_file = Some output_path,
                                               pii_found = True,
                                               redaction_count =
                                                 length (suggestions redaction_suggestions)\<rparr>,
                                          w3)
                                     | (False, w3) \<Rightarrow>
                                         (Inr (ProcessingResult False
                                                 (lit ''Failed to apply redactions to image'')),
                                          w3)))))))"

definition img_process_file ::
  "env \<Rightarrow> 'img imaging \<Rightarrow> world \<Rightarrow> path \<Rightarrow> processing_result \<times> world" where
  "img_process_file env lib w file_path =
     (case img_process_body env lib w file_path of
        (Inr result, w') \<Rightarrow> (result, w')
      | (Inl e, w') \<Rightarrow>
          (ProcessingResult False (lit ''Error processing image: '' @ str_exn env e), w'))"

section \<open>Concrete inputs\<close>

definition example_name :: finding where
  "example_name = \<lparr>category = lit ''name'', literal_text = lit ''John Doe'', confidence = 0.95,
      start_offset = None, end_offset = None\<rparr>"

definition example_email :: finding where
  "example_email = \<lparr>category = lit ''email'', literal_text = lit ''john@example.com'',
      confidence = 0.9, start_offset = None, end_offset = None\<rparr>"

definition example_phone :: finding where
  "example_phone = \<lparr>category = lit ''phone'', literal_text = lit ''555-0100'',
      confidence = 0.5, start_offset = Some 3, end_offset = Some 11\<rparr>"

definition example_analysis :: "bool \<Rightarrow> finding list \<Rightarrow> analysis_result" where
  "example_analysis found fs =
     \<lparr>found_pii = found, categories = map category fs, findings = fs,
      recommendation = lit ''Redact before sharing'', raw_fallback = None\<rparr>"

text \<open>A reply of the chat client with the given message content.\<close>

definition chat_reply :: "pyval \<Rightarrow> pyval" where
  "chat_reply content =
     PDict [(lit ''model'', PStr (lit ''llama3.2'')),
            (lit ''message'',
               PDict [(lit ''role'', PStr (lit ''assistant'')), (lit ''content'', content)])]"

text \<open>
  The suggestions that belong to the first two findings, written out.
\<close>

definition name_suggestion :: pyval where
  "name_suggestion =
     PDict [(lit ''text'', PStr (lit ''John Doe'')),
            (lit ''replacement'', PStr (lit ''[NAME REDACTED]'')),
            (lit ''type'', PStr (lit ''name'')),
            (lit ''confidence'', PNum 0.95)]"

definition email_suggestion :: pyval where
  "email_suggestion =
     PDict [(lit ''text'', PStr (lit ''john@example.com'')),
            (lit ''replacement'', PStr (lit ''[EMAIL REDACTED]'')),
            (lit ''type'', PStr (lit ''email'')),
            (lit ''confidence'', PNum 0.9)]"

text \<open>
  Case tables that know, beyond ASCII, the Kelvin sign: U+212A lowers to \<open>k\<close>, as it
  does in Python.
\<close>

definition kelvin_lower :: "ustr \<Rightarrow> ustr" where
  "kelvin_lower s = map (\<lambda>c. if c = 8490 then 107 else lower_cp c) s"

text \<open>
  Surroundings in which the chat call gives \<open>reply\<close> and \<open>json.loads\<close> gives \<open>parsed\<close>,
  with the default threshold and two random names for temporary files.
\<close>

definition example_env :: "(exn + pyval) \<Rightarrow> (exn + pyval) \<Rightarrow> env" where
  "example_env reply parsed =
     \<lparr>exn_str = (\<lambda>e. case e of LibraryError m \<Rightarrow> m | _ \<Rightarrow> lit ''error''),
      unicode_lower = kelvin_lower,
      chat = (\<lambda>t. reply),
      json_loads = (\<lambda>s. parsed),
      threshold = 0.8,
      cwd = ''/srv/bot'',
      tmp_names = [''k3x9q2ab'', ''p0w7z5cd''],
      linesep = [10]\<rparr>"

definition example_world :: "path \<Rightarrow> bytes \<Rightarrow> world" where
  "example_world p b = \<lparr>files = [p \<mapsto> b], oracle_log = []\<rparr>"

text \<open>A PDF library that opens everything as a document of \<open>n\<close> pages with the same text.\<close>

definition example_fitz :: "nat \<Rightarrow> (unit, unit) fitz" where
  "example_fitz n =
     \<lparr>fitz_installed = True,
      fitz_open = (\<lambda>b. Inr ()),
      page_count = (\<lambda>d. n),
      get_text = (\<lambda>d i. Inr (lit ''Contact John Doe'')),
      search_for = (\<lambda>d i v. Inr [()]),
      add_redact_annot = (\<lambda>d i r. Inr ()),
      apply_page_redactions = (\<lambda>d i. Inr ()),
      save = (\<lambda>d p. Inr ''%PDF-1.7 redacted'')\<rparr>"

text \<open>Imaging libraries whose OCR pass reads the given fragments.\<close>

definition example_imaging :: "ocr_result list \<Rightarrow> unit imaging" where
  "example_imaging results =
     \<lparr>pil_installed = True,
      easyocr_installed = True,
      image_open = (\<lambda>b. Inr ()),
      readtext = (\<lambda>b. Inr results),
      draw_rectangle = (\<lambda>i box. Inr ()),
      image_save = (\<lambda>i p. Inr ''PNG redacted'')\<rparr>"

definition example_box :: bbox where
  "example_box = [(10, 20), (110, 20), (110, 40), (10, 40)]"

text \<open>Surroundings in which the model answers with the given analysis.\<close>

definition answering_env :: "pyval \<Rightarrow> env" where
  "answering_env a = example_env (Inr (chat_reply (PStr (lit ''{...}'')))) (Inr a)"

definition contact_analysis :: pyval where
  "contact_analysis = analysis_dict (example_analysis True [example_name, example_email])"

text \<open>A file in Latin-1: the byte \<open>0xE9\<close> is not UTF-8 here.\<close>

definition latin1_memo :: bytes where
  "latin1_memo = ''John Doe, caf'' @ [CHR 0xE9]"

text \<open>Libraries that do their work but cannot save.\<close>

definition failing_fitz :: "(unit, unit) fitz" where
  "failing_fitz = (example_fitz 1)\<lparr>save := (\<lambda>d p. Inl (LibraryError (lit ''disk full'')))\<rparr>"

definition clear_ocr :: "ocr_result list" where
  "clear_ocr = [(example_box, lit ''Contact John Doe'', 0.9)]"

definition failing_imaging :: "unit imaging" where
  "failing_imaging =
     (example_imaging clear_ocr)\<lparr>image_save := (\<lambda>i p. Inl (LibraryError (lit ''disk full'')))\<rparr>"

text \<open>The worlds a run passes through: after the call of the model, after a file is written.\<close>

definition asked :: "world \<Rightarrow> ustr \<Rightarrow> world" where
  "asked w t = w\<lparr>oracle_log := oracle_log w @ [t]\<rparr>"

definition with_file :: "world \<Rightarrow> path \<Rightarrow> bytes \<Rightarrow> world" where
  "with_file w p b = w\<lparr>files := (files w)(p \<mapsto> b)\<rparr>"

definition contact_suggestion_set :: suggestion_set where
  "contact_suggestion_set =
     \<lparr>needs_redaction = True,
      suggestions = [name_suggestion, email_suggestion]\<rparr>"



text \<open>Surroundings in which the model cannot be reached.\<close>

definition offline_env :: env where
  "offline_env =
     example_env (Inl (LibraryError (lit ''connection refused''))) (Inl JSONDecodeError)"

text \<open>The category \<open>bank_account\<close> written with the Kelvin sign for its \<open>k\<close>.\<close>

definition kelvin_bank_account :: ustr where
  "kelvin_bank_account = lit ''ban'' @ [8490] @ lit ''_account''"

section \<open>Properties of the oracle adapter\<close>

subsection \<open>Auxiliary facts\<close>

lemma lit_eq_iff [simp]: "lit a = lit b \<longleftrightarrow> a = b"
  by (simp add: lit_def inj_map_eq_map inj_on_def)

lemma bind_Inr [simp]: "bind (Inr x) f = f x"
  by (simp add: bind_def)

lemma bind_Inl [simp]: "bind (Inl e) f = Inl e"
  by (simp add: bind_def)

lemma generate_replacement_PStr:
  "generate_replacement env (PStr s) =
     Inr (case map_of replacements (str_lower (unicode_lower env) s) of
            None \<Rightarrow> lit ''[SENSITIVE INFO REDACTED]'' | Some r \<Rightarrow> r)"
  by (simp add: generate_replacement_def)

lemma collect_on_findings:
  "collect_suggestions env thr (map finding_dict fs) =
     Inr (map (suggestion_dict env) (filter (\<lambda>f. thr \<le> confidence f) fs))"
  by (induction fs)
     (simp_all add: finding_dict_def suggestion_dict_def generate_replacement_PStr)

lemma generate_on_analysis_dict:
  "generate_redaction_suggestions env thr (analysis_dict r) =
     Inr \<lparr>needs_redaction =
            (found_pii r \<and> filter (\<lambda>f. thr \<le> confidence f) (findings r) \<noteq> []),
          suggestions =
            (if found_pii r
             then map (suggestion_dict env) (filter (\<lambda>f. thr \<le> confidence f) (findings r))
             else [])\<rparr>"
  by (simp add: generate_redaction_suggestions_def analysis_dict_def collect_on_findings)

lemma generate_needs_redaction:
  "generate_redaction_suggestions env thr a = Inr S \<Longrightarrow>
     needs_redaction S = (0 < length (suggestions S))"
  by (auto simp add: generate_redaction_suggestions_def bind_def
        split: sum.splits if_splits)


lemma example_suggestions:
  "suggestion_dict env example_name = name_suggestion"
  "suggestion_dict env example_email = email_suggestion"
  by (simp_all add: suggestion_dict_def example_name_def example_email_def
        name_suggestion_def email_suggestion_def replacements_def str_lower_def lower_cp_def
        lit_def)

lemma example_confidences:
  "confidence example_name = 0.95" "confidence example_email = 0.9"
  by (simp_all add: example_name_def example_email_def)

subsection \<open>Suggestions are the findings at or above the threshold\<close>

text \<open>
  Claim C1. For every analysis result of the data model and every threshold,
  \<open>generate_redaction_suggestions\<close> returns a suggestion set (it does not raise) in which
  \<open>needs_redaction\<close> is \<open>len(suggestions) > 0\<close>. When \<open>found_pii\<close> holds, the
  suggestions are the findings whose confidence is at least the threshold, in the order of
  the findings and with repetitions kept, each carrying the finding's text, category and
  confidence and the replacement that the static table gives for the lower-cased
  category (\<open>str.lower\<close> with the case tables of the surroundings, whatever they are).
  When \<open>found_pii\<close> does not hold, the list is empty and \<open>needs_redaction\<close> is false.
\<close>

theorem suggest_filters_findings:
  "\<exists>S. generate_redaction_suggestions env thr (analysis_dict r) = Inr S
     \<and> needs_redaction S = (0 < length (suggestions S))
     \<and> (found_pii r \<longrightarrow>
          suggestions S
            = map (suggestion_dict env) (filter (\<lambda>f. thr \<le> confidence f) (findings r)))
     \<and> (\<not> found_pii r \<longrightarrow> suggestions S = [] \<and> \<not> needs_redaction S)"
  by (simp add: generate_on_analysis_dict)

text \<open>
  The theorem at an analysis with a repeated finding and one below the threshold, and at
  an analysis that reports no PII although it lists a finding.
\<close>

theorem suggest_filters_findings_witness:
  "found_pii (example_analysis True [example_name, example_phone, example_email, example_name])
   \<and> (\<exists>S. generate_redaction_suggestions offline_env 0.8
             (analysis_dict
               (example_analysis True [example_name, example_phone, example_email, example_name]))
           = Inr S
         \<and> needs_redaction S
         \<and> suggestions S = [name_suggestion, email_suggestion, name_suggestion])
   \<and> \<not> found_pii (example_analysis False [example_name])
   \<and> (\<exists>S. generate_redaction_suggestions offline_env 0.8
             (analysis_dict (example_analysis False [example_name])) = Inr S
         \<and> \<not> needs_redaction S \<and> suggestions S = [])"
  using suggest_filters_findings
          [of offline_env "0.8"
              "example_analysis True [example_name, example_phone, example_email, example_name]"]
        suggest_filters_findings [of offline_env "0.8" "example_analysis False [example_name]"]
  by (auto simp add: example_analysis_def example_name_def example_email_def example_phone_def
        name_suggestion_def email_suggestion_def suggestion_dict_def replacements_def
        str_lower_def lower_cp_def lit_def)

subsection \<open>Raising the threshold\<close>

text \<open>
  Claim C8. For every analysis result of the data model and thresholds \<open>t1 \<le> t2\<close>, both
  calls return, and the one at \<open>t2\<close> produces no more suggestions than the one at \<open>t1\<close>.
\<close>

theorem threshold_monotone:
  "t1 \<le> t2 \<Longrightarrow>
     \<exists>S1 S2. generate_redaction_suggestions env t1 (analysis_dict r) = Inr S1
       \<and> generate_redaction_suggestions env t2 (analysis_dict r) = Inr S2
       \<and> length (suggestions S2) \<le> length (suggestions S1)"
proof -
  assume le: "t1 \<le> t2"
  have sub: "length (filter (\<lambda>f. t2 \<le> confidence f) fs)
               \<le> length (filter (\<lambda>f. t1 \<le> confidence f) fs)" for fs :: "finding list"
    using le by (induction fs) auto
  show ?thesis
    by (simp add: generate_on_analysis_dict sub)
qed

theorem threshold_monotone_witness:
  "(0.6::real) \<le> 0.92
   \<and> (\<exists>S1 S2. generate_redaction_suggestions offline_env 0.6
                 (analysis_dict (example_analysis True [example_name, example_email])) = Inr S1
        \<and> generate_redaction_suggestions offline_env 0.92
                 (analysis_dict (example_analysis True [example_name, example_email])) = Inr S2
        \<and> length (suggestions S1) = 2 \<and> length (suggestions S2) = 1)"
  using threshold_monotone
          [of "0.6" "0.92" offline_env "example_analysis True [example_name, example_email]"]
  by (simp add: generate_on_analysis_dict example_analysis_def example_name_def example_email_def)

subsection \<open>The replacement literals\<close>

lemma ascii_lookup:
  "is_ascii s \<Longrightarrow> str_lower tables s = map lower_cp s"
  by (simp add: str_lower_def)

lemma kelvin_lookup:
  "str_lower (unicode_lower offline_env) kelvin_bank_account = lit ''bank_account''"
  by (simp add: str_lower_def offline_env_def example_env_def kelvin_lower_def
        kelvin_bank_account_def lower_cp_def lit_def)

text \<open>
  Claim C9 as stated fails: the table's entry for \<open>credit_card\<close> is
  \<open>[CARD NUMBER REDACTED]\<close>, not the category in capitals between \<open>[\<close> and
  \<open> REDACTED]\<close>.
\<close>

theorem replacement_not_template_counterexample:
  "generate_replacement offline_env (PStr (lit ''credit_card''))
     = Inr (lit ''[CARD NUMBER REDACTED]'')
   \<and> spec_template (lit ''credit_card'') = lit ''[CREDIT_CARD REDACTED]''
   \<and> generate_replacement offline_env (PStr (lit ''credit_card''))
       \<noteq> Inr (spec_template (lit ''credit_card''))"
  by (simp add: generate_replacement_def replacements_def str_lower_def lower_cp_def
        spec_template_def upper_cp_def lit_def)

text \<open>
  Claim C9, amended. For \<open>name\<close>, \<open>email\<close>, \<open>phone\<close>, \<open>address\<close> and \<open>ssn\<close> the
  replacement is the category in capitals between \<open>[\<close> and \<open> REDACTED]\<close>; for
  \<open>credit_card\<close>, \<open>bank_account\<close>, \<open>id_number\<close>, \<open>date_of_birth\<close> and \<open>medical\<close> it is
  the table's own label; and for every category whose lower-cased form is not a key of
  the table it is \<open>[SENSITIVE INFO REDACTED]\<close>. Lower-casing is \<open>str.lower\<close>, with the
  case tables of the surroundings for a category that is not ASCII: a category whose
  lower-cased form is a key gets that key's label, however it was written.
\<close>

theorem replacement_table:
  "generate_replacement env (PStr (lit ''name'')) = Inr (spec_template (lit ''name''))
   \<and> generate_replacement env (PStr (lit ''email'')) = Inr (spec_template (lit ''email''))
   \<and> generate_replacement env (PStr (lit ''phone'')) = Inr (spec_template (lit ''phone''))
   \<and> generate_replacement env (PStr (lit ''address''))
       = Inr (spec_template (lit ''address''))
   \<and> generate_replacement env (PStr (lit ''ssn'')) = Inr (spec_template (lit ''ssn''))
   \<and> generate_replacement env (PStr (lit ''credit_card''))
       = Inr (lit ''[CARD NUMBER REDACTED]'')
   \<and> generate_replacement env (PStr (lit ''bank_account''))
       = Inr (lit ''[ACCOUNT NUMBER REDACTED]'')
   \<and> generate_replacement env (PStr (lit ''id_number'')) = Inr (lit ''[ID NUMBER REDACTED]'')
   \<and> generate_replacement env (PStr (lit ''date_of_birth'')) = Inr (lit ''[DOB REDACTED]'')
   \<and> generate_replacement env (PStr (lit ''medical''))
       = Inr (lit ''[MEDICAL INFO REDACTED]'')
   \<and> (str_lower (unicode_lower env) c \<notin> fst ` set replacements \<longrightarrow>
        generate_replacement env (PStr c) = Inr (lit ''[SENSITIVE INFO REDACTED]''))
   \<and> (str_lower (unicode_lower env) c = str_lower (unicode_lower env) d \<longrightarrow>
        generate_replacement env (PStr c) = generate_replacement env (PStr d))"
proof -
  have fixed:
    "generate_replacement env (PStr (lit ''name'')) = Inr (spec_template (lit ''name''))"
    "generate_replacement env (PStr (lit ''email'')) = Inr (spec_template (lit ''email''))"
    "generate_replacement env (PStr (lit ''phone'')) = Inr (spec_template (lit ''phone''))"
    "generate_replacement env (PStr (lit ''address''))
       = Inr (spec_template (lit ''address''))"
    "generate_replacement env (PStr (lit ''ssn'')) = Inr (spec_template (lit ''ssn''))"
    "generate_replacement env (PStr (lit ''credit_card''))
       = Inr (lit ''[CARD NUMBER REDACTED]'')"
    "generate_replacement env (PStr (lit ''bank_account''))
       = Inr (lit ''[ACCOUNT NUMBER REDACTED]'')"
    "generate_replacement env (PStr (lit ''id_number'')) = Inr (lit ''[ID NUMBER REDACTED]'')"
    "generate_replacement env (PStr (lit ''date_of_birth'')) = Inr (lit ''[DOB REDACTED]'')"
    "generate_replacement env (PStr (lit ''medical''))
       = Inr (lit ''[MEDICAL INFO REDACTED]'')"
    by (simp_all add: generate_replacement_def replacements_def str_lower_def lower_cp_def
          spec_template_def upper_cp_def lit_def)
  have unknown: "generate_replacement env (PStr c) = Inr (lit ''[SENSITIVE INFO REDACTED]'')"
    if "str_lower (unicode_lower env) c \<notin> fst ` set replacements"
  proof -
    from that have "map_of replacements (str_lower (unicode_lower env) c) = None"
      by (simp add: map_of_eq_None_iff)
    then show ?thesis
      by (simp add: generate_replacement_def)
  qed
  have same: "generate_replacement env (PStr c) = generate_replacement env (PStr d)"
    if "str_lower (unicode_lower env) c = str_lower (unicode_lower env) d"
    using that by (simp add: generate_replacement_def)
  from fixed unknown same show ?thesis
    by blast
qed

text \<open>
  The theorem at a category that is not in the table, and at \<open>bank_account\<close> written
  with the Kelvin sign, which lower-cases to the key.
\<close>

theorem replacement_table_witness:
  "str_lower (unicode_lower offline_env) (lit ''Passport'') \<notin> fst ` set replacements
   \<and> generate_replacement offline_env (PStr (lit ''Passport''))
       = Inr (lit ''[SENSITIVE INFO REDACTED]'')
   \<and> str_lower (unicode_lower offline_env) kelvin_bank_account
       = str_lower (unicode_lower offline_env) (lit ''bank_account'')
   \<and> generate_replacement offline_env (PStr kelvin_bank_account)
       = Inr (lit ''[ACCOUNT NUMBER REDACTED]'')"
proof -
  have p: "str_lower (unicode_lower offline_env) (lit ''Passport'')
             \<notin> fst ` set replacements"
    by (simp add: replacements_def str_lower_def lower_cp_def lit_def)
  have k: "str_lower (unicode_lower offline_env) kelvin_bank_account
             = str_lower (unicode_lower offline_env) (lit ''bank_account'')"
    by (simp add: kelvin_lookup) (simp add: str_lower_def lower_cp_def lit_def)
  from replacement_table [of offline_env "lit ''Passport''"]
       replacement_table [of offline_env kelvin_bank_account "lit ''bank_account''"] p k
  show ?thesis
    by simp
qed

subsection \<open>The analysis call absorbs every failure\<close>




section \<open>Properties of the processors\<close>

subsection \<open>ASCII text through the codecs\<close>

lemma utf8_decode_ascii:
  "list_all (\<lambda>c. (of_char c :: nat) < 128) s \<Longrightarrow> utf8_decode s = Some (lit s)"
  by (induction s) (simp_all add: utf8_decode_def lit_def)

lemma utf8_encode_ascii:
  "list_all (\<lambda>c. (of_char c :: nat) < 128) s \<Longrightarrow> utf8_encode (lit s) = Some s"
  by (induction s) (auto simp add: utf8_encode_def lit_def utf8_encode_cp_def)

lemma write_newlines_plain:
  "list_all (\<lambda>c. c \<noteq> 10) s \<Longrightarrow> write_newlines sep s = s"
  by (induction s) (simp_all add: write_newlines_def)

lemma universal_newlines_plain:
  "list_all (\<lambda>c. c \<noteq> 13) s \<Longrightarrow> universal_newlines s = s"
  by (induction s rule: universal_newlines.induct) simp_all

lemma contact_suggestions:
  "generate_redaction_suggestions env 0.8
     (analysis_dict (example_analysis True [example_name, example_email]))
   = Inr \<lparr>needs_redaction = True, suggestions = [name_suggestion, email_suggestion]\<rparr>"
  by (simp add: generate_on_analysis_dict example_analysis_def example_confidences
        example_suggestions)

lemma contact_redact:
  "txt_redact (lit ''Contact John Doe at john@example.com'')
     [name_suggestion, email_suggestion]
   = Inr (lit ''Contact [NAME REDACTED] at [EMAIL REDACTED]'')"
  by (simp add: name_suggestion_def email_suggestion_def
        replacements_def str_lower_def lower_cp_def py_replace_def str_replace_def lit_def)

subsection \<open>The plain-text round trip\<close>

text \<open>
  Claim C2. The file holds \<open>Contact John Doe at john@example.com\<close>; the analysis lists
  the name \<open>John Doe\<close> with confidence 0.95 and the email \<open>john@example.com\<close> with
  confidence 0.9. Generating suggestions at threshold 0.8 and applying them with the
  plain-text applicator succeeds, and the output file holds
  \<open>Contact [NAME REDACTED] at [EMAIL REDACTED]\<close>, whatever the surroundings.
\<close>

theorem round_trip_plain_text:
  "\<exists>S w'. generate_redaction_suggestions env 0.8
             (analysis_dict (example_analysis True [example_name, example_email])) = Inr S
     \<and> txt_apply_redactions env
          (example_world ''/srv/bot/temp/contact.txt'' ''Contact John Doe at john@example.com'')
          ''/srv/bot/temp/contact.txt'' (suggestions S) ''/srv/bot/temp/redacted.txt''
        = (True, w')
     \<and> files w' ''/srv/bot/temp/redacted.txt''
        = Some ''Contact [NAME REDACTED] at [EMAIL REDACTED]''"
proof -
  let ?w = "example_world ''/srv/bot/temp/contact.txt'' ''Contact John Doe at john@example.com''"
  have "utf8_decode ''Contact John Doe at john@example.com''
          = Some (lit ''Contact John Doe at john@example.com'')"
    by (rule utf8_decode_ascii) simp
  moreover have "universal_newlines (lit ''Contact John Doe at john@example.com'')
        = lit ''Contact John Doe at john@example.com''"
    by (rule universal_newlines_plain) (simp add: lit_def)
  ultimately have rd: "read_text ?w ''/srv/bot/temp/contact.txt'' utf8_decode
        = Inr (lit ''Contact John Doe at john@example.com'')"
    by (simp add: read_text_def example_world_def)
  have "write_newlines (linesep env) (lit ''Contact [NAME REDACTED] at [EMAIL REDACTED]'')
          = lit ''Contact [NAME REDACTED] at [EMAIL REDACTED]''"
    by (rule write_newlines_plain) (simp add: lit_def)
  moreover have "utf8_encode (lit ''Contact [NAME REDACTED] at [EMAIL REDACTED]'')
          = Some ''Contact [NAME REDACTED] at [EMAIL REDACTED]''"
    by (rule utf8_encode_ascii) simp
  ultimately have wr: "write_text_utf8 env ?w ''/srv/bot/temp/redacted.txt''
          (lit ''Contact [NAME REDACTED] at [EMAIL REDACTED]'')
        = (Inr (), ?w\<lparr>files := (files ?w)(''/srv/bot/temp/redacted.txt''
                 \<mapsto> ''Contact [NAME REDACTED] at [EMAIL REDACTED]'')\<rparr>)"
    by (simp add: write_text_utf8_def)
  have "txt_apply_redactions env ?w ''/srv/bot/temp/contact.txt''
          [name_suggestion, email_suggestion]
          ''/srv/bot/temp/redacted.txt''
        = (True, ?w\<lparr>files := (files ?w)(''/srv/bot/temp/redacted.txt''
                 \<mapsto> ''Contact [NAME REDACTED] at [EMAIL REDACTED]'')\<rparr>)"
    by (simp add: txt_apply_redactions_def rd contact_redact wr del: txt_redact.simps)
  then have "txt_apply_redactions env ?w ''/srv/bot/temp/contact.txt''
          (suggestions \<lparr>needs_redaction = True,
             suggestions = [name_suggestion, email_suggestion]\<rparr>)
          ''/srv/bot/temp/redacted.txt''
        = (True, ?w\<lparr>files := (files ?w)(''/srv/bot/temp/redacted.txt''
                 \<mapsto> ''Contact [NAME REDACTED] at [EMAIL REDACTED]'')\<rparr>)
      \<and> files (?w\<lparr>files := (files ?w)(''/srv/bot/temp/redacted.txt''
                 \<mapsto> ''Contact [NAME REDACTED] at [EMAIL REDACTED]'')\<rparr>)
            ''/srv/bot/temp/redacted.txt''
          = Some ''Contact [NAME REDACTED] at [EMAIL REDACTED]''"
    by simp
  with contact_suggestions show ?thesis
    by blast
qed

subsection \<open>Stages of the pipeline\<close>

lemma generate_needs_found:
  "generate_redaction_suggestions env thr a = Inr S \<Longrightarrow> needs_redaction S \<Longrightarrow>
     \<exists>f. dict_get a (lit ''found_pii'') (PBool False) = Inr f \<and> truthy f"
  by (auto simp add: generate_redaction_suggestions_def bind_def split: sum.splits if_splits)

lemma create_temp_file_fresh:
  "create_temp_file env w n = Inr (out, w2) \<Longrightarrow>
     files w out = None \<and> w2 = w\<lparr>files := (files w)(out \<mapsto> [])\<rparr>"
  by (auto simp add: create_temp_file_def Let_def find_Some_iff split: option.splits)

lemma txt_apply_frame:
  "p \<noteq> output_path \<Longrightarrow>
     files (snd (txt_apply_redactions env w file_path redactions output_path)) p = files w p"
  by (auto simp add: txt_apply_redactions_def write_text_utf8_def
        split: sum.splits option.splits)

lemma pdf_apply_frame:
  "p \<noteq> output_path \<Longrightarrow>
     files (snd (pdf_apply_redactions lib w file_path redactions output_path)) p = files w p"
  by (auto simp add: pdf_apply_redactions_def split: sum.splits)

lemma img_apply_frame:
  "p \<noteq> output_path \<Longrightarrow>
     files (snd (img_apply_redactions env lib w file_path redactions output_path)) p = files w p"
  by (auto simp add: img_apply_redactions_def split: sum.splits)

lemma txt_apply_keeps_output:
  "files w output_path \<noteq> None \<Longrightarrow>
     files (snd (txt_apply_redactions env w file_path redactions output_path)) output_path \<noteq> None"
  by (auto simp add: txt_apply_redactions_def write_text_utf8_def
        split: sum.splits option.splits)

lemma pdf_apply_keeps_output:
  "files w output_path \<noteq> None \<Longrightarrow>
     files (snd (pdf_apply_redactions lib w file_path redactions output_path)) output_path \<noteq> None"
  by (auto simp add: pdf_apply_redactions_def split: sum.splits)

lemma img_apply_keeps_output:
  "files w output_path \<noteq> None \<Longrightarrow>
     files (snd (img_apply_redactions env lib w file_path redactions output_path)) output_path \<noteq> None"
  by (auto simp add: img_apply_redactions_def split: sum.splits)

lemma analyze_files:
  "analyze_text_for_pii env w t = (r, w1) \<Longrightarrow> files w1 = files w"
  by (auto simp add: analyze_text_for_pii_def)

lemma txt_process_keeps_files:
  "files w p \<noteq> None \<Longrightarrow> files (snd (txt_process_file env w file_path)) p = files w p"
proof -
  assume ex: "files w p \<noteq> None"
  have step: "files w3 p = files w p"
    if "txt_apply_redactions env w2 file_path rs out = (b, w3)"
      and "create_temp_file env w1 n = Inr (out, w2)"
      and "analyze_text_for_pii env w t = (r, w1)" for w1 w2 w3 n out rs b t r
  proof -
    from create_temp_file_fresh [OF that(2)] analyze_files [OF that(3)] ex
    have "p \<noteq> out" and "files w2 p = files w p"
      by auto
    with txt_apply_frame [of p out env w2 file_path rs] that(1) show ?thesis
      by simp
  qed
  show ?thesis
    unfolding txt_process_file_def txt_process_body_def
    by (auto simp add: ProcessingResult_def dest: analyze_files step
          split: sum.splits prod.splits if_splits bool.splits)
qed

lemma txt_outcome_iff:
  "(output_file (fst (txt_process_file env w p)) \<noteq> None)
     = (success (fst (txt_process_file env w p))
        \<and> 0 < redaction_count (fst (txt_process_file env w p)))"
  unfolding txt_process_file_def txt_process_body_def
  by (auto simp add: ProcessingResult_def dest: generate_needs_redaction
        split: sum.splits prod.splits if_splits bool.splits)

lemma txt_redacting_stage:
  assumes "txt_extract_text env w p = Inr t" and "str_strip t \<noteq> []"
    and "analyze_text_for_pii env w t = (Inr a, w1)"
    and "generate_redaction_suggestions env (threshold env) a = Inr S" and "needs_redaction S"
    and "create_temp_file env w1 (''redacted_'' @ basename p) = Inr (out, w2)"
    and "txt_apply_redactions env w2 p (suggestions S) out = (b, w3)"
  shows "snd (txt_process_file env w p) = w3
     \<and> success (fst (txt_process_file env w p)) = b
     \<and> output_file (fst (txt_process_file env w p)) = (if b then Some out else None)
     \<and> redaction_count (fst (txt_process_file env w p))
         = (if b then length (suggestions S) else 0)
     \<and> pii_found (fst (txt_process_file env w p)) = b"
proof -
  from generate_needs_found [OF assms(4) assms(5)]
  obtain f where "dict_get a (lit ''found_pii'') (PBool False) = Inr f" and "truthy f"
    by blast
  with assms show ?thesis
    by (cases b) (simp_all add: txt_process_file_def txt_process_body_def ProcessingResult_def)
qed

lemma pdf_process_keeps_files:
  "files w p \<noteq> None \<Longrightarrow> files (snd (pdf_process_file env lib w file_path)) p = files w p"
proof -
  assume ex: "files w p \<noteq> None"
  have step: "files w3 p = files w p"
    if "pdf_apply_redactions lib w2 file_path rs out = (b, w3)"
      and "create_temp_file env w1 n = Inr (out, w2)"
      and "analyze_text_for_pii env w t = (r, w1)" for w1 w2 w3 n out rs b t r
  proof -
    from create_temp_file_fresh [OF that(2)] analyze_files [OF that(3)] ex
    have "p \<noteq> out" and "files w2 p = files w p"
      by auto
    with pdf_apply_frame [of p out lib w2 file_path rs] that(1) show ?thesis
      by simp
  qed
  show ?thesis
    unfolding pdf_process_file_def pdf_process_body_def
    by (auto simp add: ProcessingResult_def dest: analyze_files step
          split: sum.splits prod.splits if_splits bool.splits)
qed

lemma pdf_outcome_iff:
  "(output_file (fst (pdf_process_file env lib w p)) \<noteq> None)
     = (success (fst (pdf_process_file env lib w p))
        \<and> 0 < redaction_count (fst (pdf_process_file env lib w p)))"
  unfolding pdf_process_file_def pdf_process_body_def
  by (auto simp add: ProcessingResult_def dest: generate_needs_redaction
        split: sum.splits prod.splits if_splits bool.splits)

lemma pdf_redacting_stage:
  assumes "pdf_extract_text env lib w p = Inr t" and "str_strip t \<noteq> []"
    and "analyze_text_for_pii env w t = (Inr a, w1)"
    and "generate_redaction_suggestions env (threshold env) a = Inr S" and "needs_redaction S"
    and "create_temp_file env w1 (''redacted_'' @ basename p) = Inr (out, w2)"
    and "pdf_apply_redactions lib w2 p (suggestions S) out = (b, w3)"
  shows "snd (pdf_process_file env lib w p) = w3
     \<and> success (fst (pdf_process_file env lib w p)) = b
     \<and> output_file (fst (pdf_process_file env lib w p)) = (if b then Some out else None)
     \<and> redaction_count (fst (pdf_process_file env lib w p))
         = (if b then length (suggestions S) else 0)
     \<and> pii_found (fst (pdf_process_file env lib w p)) = b"
proof -
  from generate_needs_found [OF assms(4) assms(5)]
  obtain f where "dict_get a (lit ''found_pii'') (PBool False) = Inr f" and "truthy f"
    by blast
  with assms show ?thesis
    by (cases b) (simp_all add: pdf_process_file_def pdf_process_body_def ProcessingResult_def)
qed

lemma img_process_keeps_files:
  "files w p \<noteq> None \<Longrightarrow> files (snd (img_process_file env lib w file_path)) p = files w p"
proof -
  assume ex: "files w p \<noteq> None"
  have step: "files w3 p = files w p"
    if "img_apply_redactions env lib w2 file_path rs out = (b, w3)"
      and "create_temp_file env w1 n = Inr (out, w2)"
      and "analyze_text_for_pii env w t = (r, w1)" for w1 w2 w3 n out rs b t r
  proof -
    from create_temp_file_fresh [OF that(2)] analyze_files [OF that(3)] ex
    have "p \<noteq> out" and "files w2 p = files w p"
      by auto
    with img_apply_frame [of p out env lib w2 file_path rs] that(1) show ?thesis
      by simp
  qed
  show ?thesis
    unfolding img_process_file_def img_process_body_def
    by (auto simp add: ProcessingResult_def dest: analyze_files step
          split: sum.splits prod.splits if_splits bool.splits)
qed

lemma img_outcome_iff:
  "(output_file (fst (img_process_file env lib w p)) \<noteq> None)
     = (success (fst (img_process_file env lib w p))
        \<and> 0 < redaction_count (fst (img_process_file env lib w p)))"
  unfolding img_process_file_def img_process_body_def
  by (auto simp add: ProcessingResult_def dest: generate_needs_redaction
        split: sum.splits prod.splits if_splits bool.splits)

lemma img_redacting_stage:
  assumes "img_extract_text env lib w p = Inr t" and "str_strip t \<noteq> []"
    and "analyze_text_for_pii env w t = (Inr a, w1)"
    and "generate_redaction_suggestions env (threshold env) a = Inr S" and "needs_redaction S"
    and "create_temp_file env w1 (''redacted_'' @ basename p) = Inr (out, w2)"
    and "img_apply_redactions env lib w2 p (suggestions S) out = (b, w3)"
  shows "snd (img_process_file env lib w p) = w3
     \<and> success (fst (img_process_file env lib w p)) = b
     \<and> output_file (fst (img_process_file env lib w p)) = (if b then Some out else None)
     \<and> redaction_count (fst (img_process_file env lib w p))
         = (if b then length (suggestions S) else 0)
     \<and> pii_found (fst (img_process_file env lib w p)) = b"
proof -
  from generate_needs_found [OF assms(4) assms(5)]
  obtain f where "dict_get a (lit ''found_pii'') (PBool False) = Inr f" and "truthy f"
    by blast
  with assms show ?thesis
    by (cases b) (simp_all add: img_process_file_def img_process_body_def ProcessingResult_def)
qed

subsection \<open>The concrete surroundings\<close>

lemma answering_analyze:
  "analyze_text_for_pii (answering_env a) w t = (Inr a, w\<lparr>oracle_log := oracle_log w @ [t]\<rparr>)"
  by (simp add: answering_env_def example_env_def analyze_text_for_pii_def analyze_body_def
        chat_reply_def json_loads_val_def)

lemma example_create_temp_file:
  "files w (''/srv/bot/temp/tmpk3x9q2ab_'' @ n) = None \<Longrightarrow>
     create_temp_file (answering_env a) w n
       = Inr (''/srv/bot/temp/tmpk3x9q2ab_'' @ n,
              w\<lparr>files := (files w)(''/srv/bot/temp/tmpk3x9q2ab_'' @ n \<mapsto> [])\<rparr>)"
  by (simp add: create_temp_file_def answering_env_def example_env_def path_join_def Let_def
        suffix_def)

lemma contact_needs:
  "generate_redaction_suggestions (answering_env a) (threshold (answering_env a))
     contact_analysis
   = Inr \<lparr>needs_redaction = True, suggestions = [name_suggestion, email_suggestion]\<rparr>"
proof -
  have "threshold (answering_env a) = 0.8"
    by (simp add: answering_env_def example_env_def)
  then show ?thesis
    by (simp add: contact_analysis_def generate_on_analysis_dict example_analysis_def
          example_confidences example_suggestions)
qed

lemma latin1_memo_not_utf8: "utf8_decode latin1_memo = None"
  by (simp add: latin1_memo_def utf8_decode_def is_cont_def)

lemma memo_text:
  "universal_newlines (latin1_decode latin1_memo) = lit ''John Doe, caf'' @ [233]"
  by (simp add: latin1_decode_def latin1_memo_def lit_def)

lemma memo_text_not_blank: "str_strip (lit ''John Doe, caf'' @ [233]) \<noteq> []"
  by (simp add: str_strip_def is_space_def lit_def)

subsection \<open>A Latin-1 file is extracted but cannot be redacted\<close>

lemma txt_extract_not_utf8:
  "files w p = Some b \<Longrightarrow> utf8_decode b = None \<Longrightarrow>
     txt_extract_text env w p = Inr (universal_newlines (latin1_decode b))"
  by (simp add: txt_extract_text_def read_text_def)

lemma txt_apply_not_utf8:
  "files w p = Some b \<Longrightarrow> utf8_decode b = None \<Longrightarrow>
     txt_apply_redactions env w p redactions out = (False, w)"
  by (simp add: txt_apply_redactions_def read_text_def)

text \<open>
  Claim C10. Let the bytes of a text file not decode as UTF-8 (every byte string decodes
  as Latin-1). Then \<open>extract_text\<close> succeeds with the Latin-1 decoding (in text mode, so
  with line ends translated), \<open>apply_redactions\<close> returns \<open>False\<close> for every list of
  suggestions and leaves the world as it was, and whenever the analysis of the extracted
  text yields suggestions at or above the threshold, \<open>process_file\<close> ends with
  \<open>success = False\<close>.
\<close>

theorem latin1_file_extracted_not_redacted:
  assumes "files w p = Some b" and "utf8_decode b = None"
  shows "txt_extract_text env w p = Inr (universal_newlines (latin1_decode b))
     \<and> txt_apply_redactions env w p redactions out = (False, w)
     \<and> (fst (analyze_text_for_pii env w (universal_newlines (latin1_decode b))) = Inr a
          \<and> generate_redaction_suggestions env (threshold env) a = Inr S
          \<and> needs_redaction S
        \<longrightarrow> \<not> success (fst (txt_process_file env w p)))"
proof (intro conjI impI)
  let ?t = "universal_newlines (latin1_decode b)"
  show ex: "txt_extract_text env w p = Inr ?t"
    using assms by (rule txt_extract_not_utf8)
  show "txt_apply_redactions env w p redactions out = (False, w)"
    using assms by (rule txt_apply_not_utf8)
  assume run: "fst (analyze_text_for_pii env w ?t) = Inr a
          \<and> generate_redaction_suggestions env (threshold env) a = Inr S
          \<and> needs_redaction S"
  then obtain w1 where an: "analyze_text_for_pii env w ?t = (Inr a, w1)"
    by (cases "analyze_text_for_pii env w ?t") simp
  from run have gen: "generate_redaction_suggestions env (threshold env) a = Inr S"
    and needs: "needs_redaction S"
    by simp_all
  from generate_needs_found [OF gen needs]
  obtain f where found: "dict_get a (lit ''found_pii'') (PBool False) = Inr f" "truthy f"
    by blast
  show "\<not> success (fst (txt_process_file env w p))"
  proof (cases "str_strip ?t = []")
    case True
    with ex show ?thesis
      by (simp add: txt_process_file_def txt_process_body_def ProcessingResult_def)
  next
    case False
    show ?thesis
    proof (cases "create_temp_file env w1 (''redacted_'' @ basename p)")
      case (Inl e)
      with ex False an gen needs found show ?thesis
        by (simp add: txt_process_file_def txt_process_body_def ProcessingResult_def)
    next
      case (Inr r)
      then obtain out2 w2
        where cr: "create_temp_file env w1 (''redacted_'' @ basename p) = Inr (out2, w2)"
        by (cases r) simp
      from create_temp_file_fresh [OF cr] analyze_files [OF an] assms(1)
      have "files w2 p = Some b"
        by auto
      then have "txt_apply_redactions env w2 p (suggestions S) out2 = (False, w2)"
        using assms(2) by (rule txt_apply_not_utf8)
      from txt_redacting_stage [OF ex False an gen needs cr this] show ?thesis
        by simp
    qed
  qed
qed

theorem latin1_file_extracted_not_redacted_witness:
  "files (example_world ''/srv/bot/temp/memo.txt'' latin1_memo) ''/srv/bot/temp/memo.txt''
     = Some latin1_memo
   \<and> utf8_decode latin1_memo = None
   \<and> txt_extract_text (answering_env contact_analysis)
        (example_world ''/srv/bot/temp/memo.txt'' latin1_memo) ''/srv/bot/temp/memo.txt''
     = Inr (lit ''John Doe, caf'' @ [233])
   \<and> txt_apply_redactions (answering_env contact_analysis)
        (example_world ''/srv/bot/temp/memo.txt'' latin1_memo) ''/srv/bot/temp/memo.txt''
        [name_suggestion] ''/srv/bot/temp/out.txt''
     = (False, example_world ''/srv/bot/temp/memo.txt'' latin1_memo)
   \<and> fst (analyze_text_for_pii (answering_env contact_analysis)
            (example_world ''/srv/bot/temp/memo.txt'' latin1_memo)
            (lit ''John Doe, caf'' @ [233]))
     = Inr contact_analysis
   \<and> needs_redaction
        \<lparr>needs_redaction = True,
         suggestions = [name_suggestion, email_suggestion]\<rparr>
   \<and> \<not> success (fst (txt_process_file (answering_env contact_analysis)
                       (example_world ''/srv/bot/temp/memo.txt'' latin1_memo)
                       ''/srv/bot/temp/memo.txt''))"
proof -
  let ?E = "answering_env contact_analysis"
  let ?W = "example_world ''/srv/bot/temp/memo.txt'' latin1_memo"
  let ?p = "''/srv/bot/temp/memo.txt''"
  have f: "files ?W ?p = Some latin1_memo"
    by (simp add: example_world_def)
  have an: "fst (analyze_text_for_pii ?E ?W (universal_newlines (latin1_decode latin1_memo)))
              = Inr contact_analysis"
    by (simp add: answering_analyze)
  from latin1_file_extracted_not_redacted [OF f latin1_memo_not_utf8, of ?E
         "[name_suggestion]" "''/srv/bot/temp/out.txt''" contact_analysis
         "\<lparr>needs_redaction = True,
           suggestions = [name_suggestion, email_suggestion]\<rparr>"]
       an contact_needs [of contact_analysis]
  show ?thesis
    by (simp add: f latin1_memo_not_utf8 memo_text answering_analyze)
qed

subsection \<open>Empty extracted text\<close>

text \<open>
  Claim C4. When the extracted text is empty or only white space, \<open>process_file\<close> of the
  plain-text and of the PDF processor reports \<open>success = False\<close>; that of the image
  processor reports \<open>success = True\<close> with \<open>pii_found = False\<close>, \<open>redaction_count = 0\<close>
  and no output file, and it leaves the world unchanged: in particular the log of
  calls to the language model is as before, so the model was not called.
\<close>

theorem empty_text_outcomes:
  fixes lib :: "('doc, 'rect) fitz" and ilib :: "'img imaging"
  shows
  "(txt_extract_text env w p = Inr t \<and> str_strip t = []
      \<longrightarrow> \<not> success (fst (txt_process_file env w p)))
   \<and> (pdf_extract_text env lib w p = Inr t \<and> str_strip t = []
      \<longrightarrow> \<not> success (fst (pdf_process_file env lib w p)))
   \<and> (img_extract_text env ilib w p = Inr t \<and> str_strip t = []
      \<longrightarrow> success (fst (img_process_file env ilib w p))
          \<and> \<not> pii_found (fst (img_process_file env ilib w p))
          \<and> redaction_count (fst (img_process_file env ilib w p)) = 0
          \<and> output_file (fst (img_process_file env ilib w p)) = None
          \<and> snd (img_process_file env ilib w p) = w
          \<and> oracle_log (snd (img_process_file env ilib w p)) = oracle_log w)"
  by (simp add: txt_process_file_def txt_process_body_def pdf_process_file_def
        pdf_process_body_def img_process_file_def img_process_body_def ProcessingResult_def)

lemma blank_txt_extract:
  "txt_extract_text env (example_world ''/srv/bot/temp/blank.txt'' ''  '')
     ''/srv/bot/temp/blank.txt'' = Inr (lit ''  '')"
  by (simp add: txt_extract_text_def read_text_def example_world_def utf8_decode_def lit_def)

lemma blank_strip: "str_strip (lit ''  '') = []"
  by (simp add: str_strip_def is_space_def lit_def)

lemma empty_pdf_extract:
  "pdf_extract_text env (example_fitz 0) (example_world ''/srv/bot/temp/scan.pdf'' ''%PDF-1.7'')
     ''/srv/bot/temp/scan.pdf'' = Inr []"
  by (simp add: pdf_extract_text_def open_document_def example_world_def example_fitz_def)

lemma faint_img_extract:
  "img_extract_text env (example_imaging [(example_box, lit ''smudge'', 0.3)])
     (example_world ''/srv/bot/temp/card.png'' ''PNG'') ''/srv/bot/temp/card.png'' = Inr []"
  by (simp add: img_extract_text_def ocr_file_def example_world_def example_imaging_def
        str_strip_def)

theorem empty_text_outcomes_witness:
  "txt_extract_text (answering_env contact_analysis)
       (example_world ''/srv/bot/temp/blank.txt'' ''  '') ''/srv/bot/temp/blank.txt''
     = Inr (lit ''  '')
   \<and> str_strip (lit ''  '') = []
   \<and> \<not> success (fst (txt_process_file (answering_env contact_analysis)
                       (example_world ''/srv/bot/temp/blank.txt'' ''  '')
                       ''/srv/bot/temp/blank.txt''))
   \<and> pdf_extract_text (answering_env contact_analysis) (example_fitz 0)
       (example_world ''/srv/bot/temp/scan.pdf'' ''%PDF-1.7'') ''/srv/bot/temp/scan.pdf''
     = Inr []
   \<and> str_strip [] = []
   \<and> \<not> success (fst (pdf_process_file (answering_env contact_analysis) (example_fitz 0)
                       (example_world ''/srv/bot/temp/scan.pdf'' ''%PDF-1.7'')
                       ''/srv/bot/temp/scan.pdf''))
   \<and> img_extract_text (answering_env contact_analysis)
       (example_imaging [(example_box, lit ''smudge'', 0.3)])
       (example_world ''/srv/bot/temp/card.png'' ''PNG'') ''/srv/bot/temp/card.png''
     = Inr []
   \<and> success (fst (img_process_file (answering_env contact_analysis)
                     (example_imaging [(example_box, lit ''smudge'', 0.3)])
                     (example_world ''/srv/bot/temp/card.png'' ''PNG'')
                     ''/srv/bot/temp/card.png''))
   \<and> oracle_log (snd (img_process_file (answering_env contact_analysis)
                     (example_imaging [(example_box, lit ''smudge'', 0.3)])
                     (example_world ''/srv/bot/temp/card.png'' ''PNG'')
                     ''/srv/bot/temp/card.png''))
     = []"
proof -
  let ?E = "answering_env contact_analysis"
  have s0: "str_strip [] = []"
    by (simp add: str_strip_def)
  have w0: "oracle_log (example_world ''/srv/bot/temp/card.png'' ''PNG'') = []"
    by (simp add: example_world_def)
  from empty_text_outcomes [where env = ?E
         and w = "example_world ''/srv/bot/temp/blank.txt'' ''  ''"
         and p = "''/srv/bot/temp/blank.txt''" and t = "lit ''  ''"]
       blank_txt_extract [of ?E] blank_strip
  have a: "\<not> success (fst (txt_process_file ?E
                       (example_world ''/srv/bot/temp/blank.txt'' ''  '')
                       ''/srv/bot/temp/blank.txt''))"
    by blast
  from empty_text_outcomes [where env = ?E and lib = "example_fitz 0"
         and w = "example_world ''/srv/bot/temp/scan.pdf'' ''%PDF-1.7''"
         and p = "''/srv/bot/temp/scan.pdf''" and t = "[]"]
       empty_pdf_extract [of ?E] s0
  have b: "\<not> success (fst (pdf_process_file ?E (example_fitz 0)
                       (example_world ''/srv/bot/temp/scan.pdf'' ''%PDF-1.7'')
                       ''/srv/bot/temp/scan.pdf''))"
    by blast
  from empty_text_outcomes [where env = ?E and lib = "example_fitz 0"
         and ilib = "example_imaging [(example_box, lit ''smudge'', 0.3)]"
         and w = "example_world ''/srv/bot/temp/card.png'' ''PNG''"
         and p = "''/srv/bot/temp/card.png''" and t = "[]", THEN conjunct2, THEN conjunct2]
       faint_img_extract [of ?E] s0 w0
  have c: "success (fst (img_process_file ?E
                     (example_imaging [(example_box, lit ''smudge'', 0.3)])
                     (example_world ''/srv/bot/temp/card.png'' ''PNG'')
                     ''/srv/bot/temp/card.png''))
     \<and> oracle_log (snd (img_process_file ?E
                     (example_imaging [(example_box, lit ''smudge'', 0.3)])
                     (example_world ''/srv/bot/temp/card.png'' ''PNG'')
                     ''/srv/bot/temp/card.png'')) = []"
    by simp
  from a b c blank_txt_extract [of ?E] blank_strip empty_pdf_extract [of ?E] s0
       faint_img_extract [of ?E]
  show ?thesis
    by blast
qed

subsection \<open>Concrete runs of the three processors\<close>

lemma contact_text:
  "files w p = Some ''Contact John Doe at john@example.com'' \<Longrightarrow>
     read_text w p utf8_decode = Inr (lit ''Contact John Doe at john@example.com'')"
proof -
  assume f: "files w p = Some ''Contact John Doe at john@example.com''"
  have "utf8_decode ''Contact John Doe at john@example.com''
          = Some (lit ''Contact John Doe at john@example.com'')"
    by (rule utf8_decode_ascii) simp
  moreover have "universal_newlines (lit ''Contact John Doe at john@example.com'')
        = lit ''Contact John Doe at john@example.com''"
    by (rule universal_newlines_plain) (simp add: lit_def)
  ultimately show ?thesis
    using f by (simp add: read_text_def)
qed

lemma contact_extract:
  "files w p = Some ''Contact John Doe at john@example.com'' \<Longrightarrow>
     txt_extract_text env w p = Inr (lit ''Contact John Doe at john@example.com'')"
  by (simp add: txt_extract_text_def contact_text)

lemma contact_not_blank: "str_strip (lit ''Contact John Doe at john@example.com'') \<noteq> []"
  by (simp add: str_strip_def is_space_def lit_def)

lemma contact_apply:
  assumes "files w p = Some ''Contact John Doe at john@example.com''"
  shows "txt_apply_redactions env w p
           [name_suggestion, email_suggestion] out
         = (True, w\<lparr>files := (files w)(out
                      \<mapsto> ''Contact [NAME REDACTED] at [EMAIL REDACTED]'')\<rparr>)"
proof -
  have "write_newlines (linesep env) (lit ''Contact [NAME REDACTED] at [EMAIL REDACTED]'')
          = lit ''Contact [NAME REDACTED] at [EMAIL REDACTED]''"
    by (rule write_newlines_plain) (simp add: lit_def)
  moreover have "utf8_encode (lit ''Contact [NAME REDACTED] at [EMAIL REDACTED]'')
          = Some ''Contact [NAME REDACTED] at [EMAIL REDACTED]''"
    by (rule utf8_encode_ascii) simp
  ultimately have wr: "write_text_utf8 env w out
          (lit ''Contact [NAME REDACTED] at [EMAIL REDACTED]'')
        = (Inr (), w\<lparr>files := (files w)(out
                 \<mapsto> ''Contact [NAME REDACTED] at [EMAIL REDACTED]'')\<rparr>)"
    by (simp add: write_text_utf8_def)
  show ?thesis
    by (simp add: txt_apply_redactions_def contact_text [OF assms] contact_redact wr
          del: txt_redact.simps)
qed

lemma example_pdf_extract:
  "files w p = Some b \<Longrightarrow> page_count lib = (\<lambda>d. 1) \<Longrightarrow> fitz_installed lib
     \<Longrightarrow> fitz_open lib = (\<lambda>b. Inr ()) \<Longrightarrow> get_text lib = (\<lambda>d i. Inr (lit ''Contact John Doe''))
     \<Longrightarrow> pdf_extract_text env lib w p = Inr (lit ''Contact John Doe'' @ page_break)"
  by (simp add: pdf_extract_text_def open_document_def)

lemma pdf_text_not_blank: "str_strip (lit ''Contact John Doe'' @ page_break) \<noteq> []"
  by (simp add: str_strip_def is_space_def lit_def page_break_def)

lemma example_pdf_apply:
  "files w p = Some b \<Longrightarrow>
     pdf_apply_redactions (example_fitz 1) w p
       [name_suggestion, email_suggestion] out
     = (True, w\<lparr>files := (files w)(out \<mapsto> ''%PDF-1.7 redacted'')\<rparr>)"
  by (simp add: pdf_apply_redactions_def open_document_def example_fitz_def
        name_suggestion_def email_suggestion_def lit_def)

lemma failing_pdf_apply:
  "pdf_apply_redactions failing_fitz w p redactions out = (False, w)"
  by (simp add: pdf_apply_redactions_def failing_fitz_def bind_def split: sum.splits)

lemma example_img_extract:
  "files w p = Some b \<Longrightarrow> easyocr_installed lib \<Longrightarrow> readtext lib = (\<lambda>b. Inr clear_ocr)
     \<Longrightarrow> img_extract_text env lib w p = Inr (lit ''Contact John Doe'')"
  by (simp add: img_extract_text_def ocr_file_def clear_ocr_def str_strip_def is_space_def
        lit_def)

lemma img_text_not_blank: "str_strip (lit ''Contact John Doe'') \<noteq> []"
  by (simp add: str_strip_def is_space_def lit_def)

lemma example_img_apply:
  "files w p = Some b \<Longrightarrow>
     img_apply_redactions env (example_imaging clear_ocr) w p
       [name_suggestion, email_suggestion] out
     = (True, w\<lparr>files := (files w)(out \<mapsto> ''PNG redacted'')\<rparr>)"
  by (simp add: img_apply_redactions_def open_image_def ocr_file_def example_imaging_def
        clear_ocr_def name_suggestion_def email_suggestion_def
        py_strip_def str_strip_def is_space_def str_lower_def lower_cp_def
        bbox_extent_def example_box_def lit_def)

lemma failing_img_apply:
  "img_apply_redactions env failing_imaging w p redactions out = (False, w)"
  by (simp add: img_apply_redactions_def failing_imaging_def bind_def split: sum.splits)

lemma example_run_prefix:
  assumes "files w (''/srv/bot/temp/tmpk3x9q2ab_redacted_'' @ basename p) = None"
  shows "analyze_text_for_pii (answering_env contact_analysis) w t
           = (Inr contact_analysis, asked w t)
     \<and> generate_redaction_suggestions (answering_env contact_analysis)
           (threshold (answering_env contact_analysis))
           contact_analysis = Inr contact_suggestion_set
     \<and> needs_redaction contact_suggestion_set
     \<and> create_temp_file (answering_env contact_analysis) (asked w t)
           (''redacted_'' @ basename p)
         = Inr (''/srv/bot/temp/tmpk3x9q2ab_redacted_'' @ basename p,
                with_file (asked w t) (''/srv/bot/temp/tmpk3x9q2ab_redacted_'' @ basename p) [])"
proof -
  from assms
  have "files (asked w t) (''/srv/bot/temp/tmpk3x9q2ab_'' @ (''redacted_'' @ basename p)) = None"
    by (simp add: asked_def)
  from example_create_temp_file [OF this, of contact_analysis] show ?thesis
    by (simp add: answering_analyze asked_def with_file_def contact_needs
          contact_suggestion_set_def)
qed

lemma with_file_files:
  "files (with_file w p b) q = (if q = p then Some b else files w q)"
  by (simp add: with_file_def)

lemma asked_files: "files (asked w t) = files w"
  by (simp add: asked_def)

lemma memo_run:
  "txt_extract_text (answering_env contact_analysis)
       (example_world ''/srv/bot/temp/memo.txt'' latin1_memo) ''/srv/bot/temp/memo.txt''
     = Inr (lit ''John Doe, caf'' @ [233])
   \<and> txt_apply_redactions (answering_env contact_analysis)
       (with_file (asked (example_world ''/srv/bot/temp/memo.txt'' latin1_memo)
                     (lit ''John Doe, caf'' @ [233]))
          (''/srv/bot/temp/tmpk3x9q2ab_redacted_'' @ basename ''/srv/bot/temp/memo.txt'') [])
       ''/srv/bot/temp/memo.txt'' (suggestions contact_suggestion_set)
       (''/srv/bot/temp/tmpk3x9q2ab_redacted_'' @ basename ''/srv/bot/temp/memo.txt'')
     = (False,
        with_file (asked (example_world ''/srv/bot/temp/memo.txt'' latin1_memo)
                     (lit ''John Doe, caf'' @ [233]))
          (''/srv/bot/temp/tmpk3x9q2ab_redacted_'' @ basename ''/srv/bot/temp/memo.txt'') [])"
proof -
  let ?p = "''/srv/bot/temp/memo.txt''"
  let ?W = "example_world ?p latin1_memo"
  let ?out = "''/srv/bot/temp/tmpk3x9q2ab_redacted_'' @ basename ?p"
  have f: "files ?W ?p = Some latin1_memo"
    by (simp add: example_world_def)
  have f2: "files (with_file (asked ?W (lit ''John Doe, caf'' @ [233])) ?out []) ?p
              = Some latin1_memo"
    by (simp add: with_file_files asked_files f basename_def)
  from txt_extract_not_utf8 [OF f latin1_memo_not_utf8]
       txt_apply_not_utf8 [OF f2 latin1_memo_not_utf8]
  show ?thesis
    by (simp add: memo_text)
qed

lemma memo_fresh:
  "files (example_world ''/srv/bot/temp/memo.txt'' latin1_memo)
     (''/srv/bot/temp/tmpk3x9q2ab_redacted_'' @ basename ''/srv/bot/temp/memo.txt'') = None"
  by (simp add: example_world_def basename_def)

subsection \<open>The outcome and its output file\<close>

text \<open>
  Claim C5. For each of the three processors, the outcome of \<open>process_file\<close> carries an
  output file exactly when \<open>success\<close> holds and \<open>redaction_count\<close> is positive. And when
  a run reaches the redaction step and \<open>apply_redactions\<close> returns \<open>True\<close>, the outcome
  is a success that names the created file and whose \<open>redaction_count\<close> is the number of
  suggestions handed to \<open>apply_redactions\<close>.
\<close>

theorem outcome_artifact_iff_redacted:
  fixes lib :: "('doc, 'rect) fitz" and ilib :: "'img imaging"
  shows
  "((output_file (fst (txt_process_file env w p)) \<noteq> None)
      = (success (fst (txt_process_file env w p))
         \<and> 0 < redaction_count (fst (txt_process_file env w p))))
   \<and> ((output_file (fst (pdf_process_file env lib w p)) \<noteq> None)
      = (success (fst (pdf_process_file env lib w p))
         \<and> 0 < redaction_count (fst (pdf_process_file env lib w p))))
   \<and> ((output_file (fst (img_process_file env ilib w p)) \<noteq> None)
      = (success (fst (img_process_file env ilib w p))
         \<and> 0 < redaction_count (fst (img_process_file env ilib w p))))
   \<and> (txt_extract_text env w p = Inr t \<and> str_strip t \<noteq> []
      \<and> analyze_text_for_pii env w t = (Inr a, wa)
      \<and> generate_redaction_suggestions env (threshold env) a = Inr S \<and> needs_redaction S
      \<and> create_temp_file env wa (''redacted_'' @ basename p) = Inr (out, wb)
      \<and> txt_apply_redactions env wb p (suggestions S) out = (True, wc)
      \<longrightarrow> success (fst (txt_process_file env w p))
          \<and> output_file (fst (txt_process_file env w p)) = Some out
          \<and> redaction_count (fst (txt_process_file env w p)) = length (suggestions S))
   \<and> (pdf_extract_text env lib w p = Inr t \<and> str_strip t \<noteq> []
      \<and> analyze_text_for_pii env w t = (Inr a, wa)
      \<and> generate_redaction_suggestions env (threshold env) a = Inr S \<and> needs_redaction S
      \<and> create_temp_file env wa (''redacted_'' @ basename p) = Inr (out, wb)
      \<and> pdf_apply_redactions lib wb p (suggestions S) out = (True, wc)
      \<longrightarrow> success (fst (pdf_process_file env lib w p))
          \<and> output_file (fst (pdf_process_file env lib w p)) = Some out
          \<and> redaction_count (fst (pdf_process_file env lib w p)) = length (suggestions S))
   \<and> (img_extract_text env ilib w p = Inr t \<and> str_strip t \<noteq> []
      \<and> analyze_text_for_pii env w t = (Inr a, wa)
      \<and> generate_redaction_suggestions env (threshold env) a = Inr S \<and> needs_redaction S
      \<and> create_temp_file env wa (''redacted_'' @ basename p) = Inr (out, wb)
      \<and> img_apply_redactions env ilib wb p (suggestions S) out = (True, wc)
      \<longrightarrow> success (fst (img_process_file env ilib w p))
          \<and> output_file (fst (img_process_file env ilib w p)) = Some out
          \<and> redaction_count (fst (img_process_file env ilib w p)) = length (suggestions S))"
proof (intro conjI impI)
  show "((output_file (fst (txt_process_file env w p)) \<noteq> None)
      = (success (fst (txt_process_file env w p))
         \<and> 0 < redaction_count (fst (txt_process_file env w p))))"
    by (rule txt_outcome_iff)
  show "((output_file (fst (pdf_process_file env lib w p)) \<noteq> None)
      = (success (fst (pdf_process_file env lib w p))
         \<and> 0 < redaction_count (fst (pdf_process_file env lib w p))))"
    by (rule pdf_outcome_iff)
  show "((output_file (fst (img_process_file env ilib w p)) \<noteq> None)
      = (success (fst (img_process_file env ilib w p))
         \<and> 0 < redaction_count (fst (img_process_file env ilib w p))))"
    by (rule img_outcome_iff)
qed (auto dest: txt_redacting_stage pdf_redacting_stage img_redacting_stage)

text \<open>Successful runs of the three processors, each with two suggestions.\<close>

theorem outcome_artifact_iff_redacted_witness:
  "success (fst (txt_process_file (answering_env contact_analysis)
       (example_world ''/srv/bot/temp/contact.txt'' ''Contact John Doe at john@example.com'')
       ''/srv/bot/temp/contact.txt''))
   \<and> output_file (fst (txt_process_file (answering_env contact_analysis)
       (example_world ''/srv/bot/temp/contact.txt'' ''Contact John Doe at john@example.com'')
       ''/srv/bot/temp/contact.txt''))
     = Some ''/srv/bot/temp/tmpk3x9q2ab_redacted_contact.txt''
   \<and> redaction_count (fst (txt_process_file (answering_env contact_analysis)
       (example_world ''/srv/bot/temp/contact.txt'' ''Contact John Doe at john@example.com'')
       ''/srv/bot/temp/contact.txt'')) = 2
   \<and> output_file (fst (pdf_process_file (answering_env contact_analysis) (example_fitz 1)
       (example_world ''/srv/bot/temp/scan.pdf'' ''%PDF-1.7'') ''/srv/bot/temp/scan.pdf''))
     = Some ''/srv/bot/temp/tmpk3x9q2ab_redacted_scan.pdf''
   \<and> redaction_count (fst (pdf_process_file (answering_env contact_analysis) (example_fitz 1)
       (example_world ''/srv/bot/temp/scan.pdf'' ''%PDF-1.7'') ''/srv/bot/temp/scan.pdf'')) = 2
   \<and> output_file (fst (img_process_file (answering_env contact_analysis)
       (example_imaging clear_ocr)
       (example_world ''/srv/bot/temp/card.png'' ''PNG'') ''/srv/bot/temp/card.png''))
     = Some ''/srv/bot/temp/tmpk3x9q2ab_redacted_card.png''
   \<and> redaction_count (fst (img_process_file (answering_env contact_analysis)
       (example_imaging clear_ocr)
       (example_world ''/srv/bot/temp/card.png'' ''PNG'') ''/srv/bot/temp/card.png'')) = 2"
proof -
  let ?E = "answering_env contact_analysis"
  let ?S = contact_suggestion_set
  have len: "length (suggestions ?S) = 2"
    and sug: "suggestions ?S = [name_suggestion, email_suggestion]"
    by (simp_all add: contact_suggestion_set_def)
  have plain: "success (fst (txt_process_file ?E
       (example_world ''/srv/bot/temp/contact.txt'' ''Contact John Doe at john@example.com'')
       ''/srv/bot/temp/contact.txt''))
   \<and> output_file (fst (txt_process_file ?E
       (example_world ''/srv/bot/temp/contact.txt'' ''Contact John Doe at john@example.com'')
       ''/srv/bot/temp/contact.txt''))
     = Some ''/srv/bot/temp/tmpk3x9q2ab_redacted_contact.txt''
   \<and> redaction_count (fst (txt_process_file ?E
       (example_world ''/srv/bot/temp/contact.txt'' ''Contact John Doe at john@example.com'')
       ''/srv/bot/temp/contact.txt'')) = 2"
  proof -
    let ?p = "''/srv/bot/temp/contact.txt''"
    let ?W = "example_world ?p ''Contact John Doe at john@example.com''"
    let ?t = "lit ''Contact John Doe at john@example.com''"
    let ?out = "''/srv/bot/temp/tmpk3x9q2ab_redacted_'' @ basename ?p"
    have f: "files ?W ?p = Some ''Contact John Doe at john@example.com''"
      and g: "files ?W ?out = None"
      by (simp_all add: example_world_def basename_def)
    have f2: "files (with_file (asked ?W ?t) ?out []) ?p
                = Some ''Contact John Doe at john@example.com''"
      by (simp add: with_file_files asked_files f basename_def)
    from outcome_artifact_iff_redacted [where env = ?E and w = ?W and p = ?p and t = ?t
           and a = contact_analysis and wa = "asked ?W ?t" and S = ?S and out = ?out
           and wb = "with_file (asked ?W ?t) ?out []"
           and wc = "with_file (with_file (asked ?W ?t) ?out []) ?out
                     ''Contact [NAME REDACTED] at [EMAIL REDACTED]''"
           and lib = "example_fitz 1" and ilib = "example_imaging clear_ocr"]
         contact_extract [OF f, of ?E] contact_not_blank
         example_run_prefix [OF g, of ?t]
         contact_apply [OF f2, of ?E ?out]
    show ?thesis
      by (simp add: sug with_file_def basename_def)
  qed
  have paged: "output_file (fst (pdf_process_file ?E (example_fitz 1)
       (example_world ''/srv/bot/temp/scan.pdf'' ''%PDF-1.7'') ''/srv/bot/temp/scan.pdf''))
     = Some ''/srv/bot/temp/tmpk3x9q2ab_redacted_scan.pdf''
   \<and> redaction_count (fst (pdf_process_file ?E (example_fitz 1)
       (example_world ''/srv/bot/temp/scan.pdf'' ''%PDF-1.7'') ''/srv/bot/temp/scan.pdf'')) = 2"
  proof -
    let ?p = "''/srv/bot/temp/scan.pdf''"
    let ?W = "example_world ?p ''%PDF-1.7''"
    let ?t = "lit ''Contact John Doe'' @ page_break"
    let ?out = "''/srv/bot/temp/tmpk3x9q2ab_redacted_'' @ basename ?p"
    have f: "files ?W ?p = Some ''%PDF-1.7''"
      and g: "files ?W ?out = None"
      by (simp_all add: example_world_def basename_def)
    have f2: "files (with_file (asked ?W ?t) ?out []) ?p = Some ''%PDF-1.7''"
      by (simp add: with_file_files asked_files f basename_def)
    have ex: "pdf_extract_text ?E (example_fitz 1) ?W ?p = Inr ?t"
      by (rule example_pdf_extract [OF f]) (simp_all add: example_fitz_def)
    from outcome_artifact_iff_redacted [where env = ?E and w = ?W and p = ?p and t = ?t
           and a = contact_analysis and wa = "asked ?W ?t" and S = ?S and out = ?out
           and wb = "with_file (asked ?W ?t) ?out []"
           and wc = "with_file (with_file (asked ?W ?t) ?out []) ?out ''%PDF-1.7 redacted''"
           and lib = "example_fitz 1" and ilib = "example_imaging clear_ocr"]
         ex pdf_text_not_blank
         example_run_prefix [OF g, of ?t]
         example_pdf_apply [OF f2, of ?out]
    show ?thesis
      by (simp add: sug with_file_def basename_def)
  qed
  have raster: "output_file (fst (img_process_file ?E (example_imaging clear_ocr)
       (example_world ''/srv/bot/temp/card.png'' ''PNG'') ''/srv/bot/temp/card.png''))
     = Some ''/srv/bot/temp/tmpk3x9q2ab_redacted_card.png''
   \<and> redaction_count (fst (img_process_file ?E (example_imaging clear_ocr)
       (example_world ''/srv/bot/temp/card.png'' ''PNG'') ''/srv/bot/temp/card.png'')) = 2"
  proof -
    let ?p = "''/srv/bot/temp/card.png''"
    let ?W = "example_world ?p ''PNG''"
    let ?t = "lit ''Contact John Doe''"
    let ?out = "''/srv/bot/temp/tmpk3x9q2ab_redacted_'' @ basename ?p"
    have f: "files ?W ?p = Some ''PNG''"
      and g: "files ?W ?out = None"
      by (simp_all add: example_world_def basename_def)
    have f2: "files (with_file (asked ?W ?t) ?out []) ?p = Some ''PNG''"
      by (simp add: with_file_files asked_files f basename_def)
    have ex: "img_extract_text ?E (example_imaging clear_ocr) ?W ?p = Inr ?t"
      by (rule example_img_extract [OF f]) (simp_all add: example_imaging_def)
    from outcome_artifact_iff_redacted [where env = ?E and w = ?W and p = ?p and t = ?t
           and a = contact_analysis and wa = "asked ?W ?t" and S = ?S and out = ?out
           and wb = "with_file (asked ?W ?t) ?out []"
           and wc = "with_file (with_file (asked ?W ?t) ?out []) ?out ''PNG redacted''"
           and lib = "example_fitz 1" and ilib = "example_imaging clear_ocr"]
         ex img_text_not_blank
         example_run_prefix [OF g, of ?t]
         example_img_apply [OF f2, of ?E ?out]
    show ?thesis
      by (simp add: sug with_file_def basename_def)
  qed
  from plain paged raster show ?thesis
    by blast
qed

subsection \<open>A failed redaction\<close>

text \<open>
  Claim C6 as stated fails: \<open>create_temp_file\<close> makes an empty file at the output
  location before \<open>apply_redactions\<close> runs, and nothing removes it when
  \<open>apply_redactions\<close> reports failure. Here the input is Latin-1, the applicator cannot
  read it, the outcome is a failure, and the file at the output location is still there.
\<close>

theorem placeholder_left_counterexample:
  "txt_apply_redactions (answering_env contact_analysis)
       (with_file (asked (example_world ''/srv/bot/temp/memo.txt'' latin1_memo)
                     (lit ''John Doe, caf'' @ [233]))
          ''/srv/bot/temp/tmpk3x9q2ab_redacted_memo.txt'' [])
       ''/srv/bot/temp/memo.txt'' (suggestions contact_suggestion_set)
       ''/srv/bot/temp/tmpk3x9q2ab_redacted_memo.txt''
     = (False,
        with_file (asked (example_world ''/srv/bot/temp/memo.txt'' latin1_memo)
                     (lit ''John Doe, caf'' @ [233]))
          ''/srv/bot/temp/tmpk3x9q2ab_redacted_memo.txt'' [])
   \<and> snd (txt_process_file (answering_env contact_analysis)
            (example_world ''/srv/bot/temp/memo.txt'' latin1_memo) ''/srv/bot/temp/memo.txt'')
     = with_file (asked (example_world ''/srv/bot/temp/memo.txt'' latin1_memo)
                     (lit ''John Doe, caf'' @ [233]))
          ''/srv/bot/temp/tmpk3x9q2ab_redacted_memo.txt'' []
   \<and> \<not> success (fst (txt_process_file (answering_env contact_analysis)
            (example_world ''/srv/bot/temp/memo.txt'' latin1_memo) ''/srv/bot/temp/memo.txt''))
   \<and> files (snd (txt_process_file (answering_env contact_analysis)
            (example_world ''/srv/bot/temp/memo.txt'' latin1_memo) ''/srv/bot/temp/memo.txt''))
        ''/srv/bot/temp/tmpk3x9q2ab_redacted_memo.txt''
     = Some []"
proof -
  let ?p = "''/srv/bot/temp/memo.txt''"
  let ?W = "example_world ?p latin1_memo"
  let ?t = "lit ''John Doe, caf'' @ [233]"
  have bn: "''/srv/bot/temp/tmpk3x9q2ab_redacted_'' @ basename ?p
              = ''/srv/bot/temp/tmpk3x9q2ab_redacted_memo.txt''"
    by (simp add: basename_def)
  note run = memo_run [unfolded bn] example_run_prefix [OF memo_fresh, of ?t, unfolded bn]
  from txt_redacting_stage [OF run(1) [THEN conjunct1] memo_text_not_blank
         run(2) [THEN conjunct1] run(2) [THEN conjunct2, THEN conjunct1]
         run(2) [THEN conjunct2, THEN conjunct2, THEN conjunct1] _
         run(1) [THEN conjunct2]]
       run(2) [THEN conjunct2, THEN conjunct2, THEN conjunct2]
  have "snd (txt_process_file (answering_env contact_analysis) ?W ?p)
          = with_file (asked ?W ?t) ''/srv/bot/temp/tmpk3x9q2ab_redacted_memo.txt'' []
        \<and> \<not> success (fst (txt_process_file (answering_env contact_analysis) ?W ?p))"
    by (simp add: basename_def)
  with run(1) show ?thesis
    by (simp add: with_file_files)
qed

text \<open>
  Claim C6, amended. When a run reaches the redaction step and \<open>apply_redactions\<close>
  returns \<open>False\<close>, the outcome has \<open>success = False\<close>, no output file and
  \<open>redaction_count = 0\<close>, so nothing partial is reported as a success; the file that
  \<open>create_temp_file\<close> made at the output location is left in place.
\<close>

theorem failed_apply_not_surfaced:
  fixes lib :: "('doc, 'rect) fitz" and ilib :: "'img imaging"
  shows
  "(txt_extract_text env w p = Inr t \<and> str_strip t \<noteq> []
      \<and> analyze_text_for_pii env w t = (Inr a, wa)
      \<and> generate_redaction_suggestions env (threshold env) a = Inr S \<and> needs_redaction S
      \<and> create_temp_file env wa (''redacted_'' @ basename p) = Inr (out, wb)
      \<and> txt_apply_redactions env wb p (suggestions S) out = (False, wc)
      \<longrightarrow> \<not> success (fst (txt_process_file env w p))
          \<and> output_file (fst (txt_process_file env w p)) = None
          \<and> redaction_count (fst (txt_process_file env w p)) = 0
          \<and> snd (txt_process_file env w p) = wc
          \<and> files wc out \<noteq> None)
   \<and> (pdf_extract_text env lib w p = Inr t \<and> str_strip t \<noteq> []
      \<and> analyze_text_for_pii env w t = (Inr a, wa)
      \<and> generate_redaction_suggestions env (threshold env) a = Inr S \<and> needs_redaction S
      \<and> create_temp_file env wa (''redacted_'' @ basename p) = Inr (out, wb)
      \<and> pdf_apply_redactions lib wb p (suggestions S) out = (False, wc)
      \<longrightarrow> \<not> success (fst (pdf_process_file env lib w p))
          \<and> output_file (fst (pdf_process_file env lib w p)) = None
          \<and> redaction_count (fst (pdf_process_file env lib w p)) = 0
          \<and> snd (pdf_process_file env lib w p) = wc
          \<and> files wc out \<noteq> None)
   \<and> (img_extract_text env ilib w p = Inr t \<and> str_strip t \<noteq> []
      \<and> analyze_text_for_pii env w t = (Inr a, wa)
      \<and> generate_redaction_suggestions env (threshold env) a = Inr S \<and> needs_redaction S
      \<and> create_temp_file env wa (''redacted_'' @ basename p) = Inr (out, wb)
      \<and> img_apply_redactions env ilib wb p (suggestions S) out = (False, wc)
      \<longrightarrow> \<not> success (fst (img_process_file env ilib w p))
          \<and> output_file (fst (img_process_file env ilib w p)) = None
          \<and> redaction_count (fst (img_process_file env ilib w p)) = 0
          \<and> snd (img_process_file env ilib w p) = wc
          \<and> files wc out \<noteq> None)"
proof (intro conjI impI)
  assume h: "txt_extract_text env w p = Inr t \<and> str_strip t \<noteq> []
      \<and> analyze_text_for_pii env w t = (Inr a, wa)
      \<and> generate_redaction_suggestions env (threshold env) a = Inr S \<and> needs_redaction S
      \<and> create_temp_file env wa (''redacted_'' @ basename p) = Inr (out, wb)
      \<and> txt_apply_redactions env wb p (suggestions S) out = (False, wc)"
  then have "files wb out \<noteq> None"
    by (auto dest: create_temp_file_fresh)
  from txt_apply_keeps_output [OF this, of env p "suggestions S"] h
  show "files wc out \<noteq> None"
    by simp
next
  assume h: "pdf_extract_text env lib w p = Inr t \<and> str_strip t \<noteq> []
      \<and> analyze_text_for_pii env w t = (Inr a, wa)
      \<and> generate_redaction_suggestions env (threshold env) a = Inr S \<and> needs_redaction S
      \<and> create_temp_file env wa (''redacted_'' @ basename p) = Inr (out, wb)
      \<and> pdf_apply_redactions lib wb p (suggestions S) out = (False, wc)"
  then have "files wb out \<noteq> None"
    by (auto dest: create_temp_file_fresh)
  from pdf_apply_keeps_output [OF this, of lib p "suggestions S"] h
  show "files wc out \<noteq> None"
    by simp
next
  assume h: "img_extract_text env ilib w p = Inr t \<and> str_strip t \<noteq> []
      \<and> analyze_text_for_pii env w t = (Inr a, wa)
      \<and> generate_redaction_suggestions env (threshold env) a = Inr S \<and> needs_redaction S
      \<and> create_temp_file env wa (''redacted_'' @ basename p) = Inr (out, wb)
      \<and> img_apply_redactions env ilib wb p (suggestions S) out = (False, wc)"
  then have "files wb out \<noteq> None"
    by (auto dest: create_temp_file_fresh)
  from img_apply_keeps_output [OF this, of env ilib p "suggestions S"] h
  show "files wc out \<noteq> None"
    by simp
qed (auto dest: txt_redacting_stage pdf_redacting_stage img_redacting_stage)

text \<open>
  Failing runs of the three processors: an input that is not UTF-8, and libraries that
  cannot save.
\<close>

theorem failed_apply_not_surfaced_witness:
  "\<not> success (fst (txt_process_file (answering_env contact_analysis)
       (example_world ''/srv/bot/temp/memo.txt'' latin1_memo) ''/srv/bot/temp/memo.txt''))
   \<and> output_file (fst (txt_process_file (answering_env contact_analysis)
       (example_world ''/srv/bot/temp/memo.txt'' latin1_memo) ''/srv/bot/temp/memo.txt''))
     = None
   \<and> \<not> success (fst (pdf_process_file (answering_env contact_analysis) failing_fitz
       (example_world ''/srv/bot/temp/scan.pdf'' ''%PDF-1.7'') ''/srv/bot/temp/scan.pdf''))
   \<and> files (snd (pdf_process_file (answering_env contact_analysis) failing_fitz
       (example_world ''/srv/bot/temp/scan.pdf'' ''%PDF-1.7'') ''/srv/bot/temp/scan.pdf''))
       ''/srv/bot/temp/tmpk3x9q2ab_redacted_scan.pdf'' \<noteq> None
   \<and> \<not> success (fst (img_process_file (answering_env contact_analysis) failing_imaging
       (example_world ''/srv/bot/temp/card.png'' ''PNG'') ''/srv/bot/temp/card.png''))
   \<and> files (snd (img_process_file (answering_env contact_analysis) failing_imaging
       (example_world ''/srv/bot/temp/card.png'' ''PNG'') ''/srv/bot/temp/card.png''))
       ''/srv/bot/temp/tmpk3x9q2ab_redacted_card.png'' \<noteq> None"
proof -
  let ?E = "answering_env contact_analysis"
  let ?S = contact_suggestion_set
  have plain: "\<not> success (fst (txt_process_file ?E
       (example_world ''/srv/bot/temp/memo.txt'' latin1_memo) ''/srv/bot/temp/memo.txt''))
   \<and> output_file (fst (txt_process_file ?E
       (example_world ''/srv/bot/temp/memo.txt'' latin1_memo) ''/srv/bot/temp/memo.txt''))
     = None"
  proof -
    let ?p = "''/srv/bot/temp/memo.txt''"
    let ?W = "example_world ?p latin1_memo"
    let ?t = "lit ''John Doe, caf'' @ [233]"
    let ?out = "''/srv/bot/temp/tmpk3x9q2ab_redacted_'' @ basename ?p"
    from failed_apply_not_surfaced [where env = ?E and w = ?W and p = ?p and t = ?t
           and a = contact_analysis and wa = "asked ?W ?t" and S = ?S and out = ?out
           and wb = "with_file (asked ?W ?t) ?out []"
           and wc = "with_file (asked ?W ?t) ?out []"
           and lib = failing_fitz and ilib = failing_imaging]
         memo_run memo_text_not_blank example_run_prefix [OF memo_fresh, of ?t]
    show ?thesis
      by simp
  qed
  have paged: "\<not> success (fst (pdf_process_file ?E failing_fitz
       (example_world ''/srv/bot/temp/scan.pdf'' ''%PDF-1.7'') ''/srv/bot/temp/scan.pdf''))
   \<and> files (snd (pdf_process_file ?E failing_fitz
       (example_world ''/srv/bot/temp/scan.pdf'' ''%PDF-1.7'') ''/srv/bot/temp/scan.pdf''))
       ''/srv/bot/temp/tmpk3x9q2ab_redacted_scan.pdf'' \<noteq> None"
  proof -
    let ?p = "''/srv/bot/temp/scan.pdf''"
    let ?W = "example_world ?p ''%PDF-1.7''"
    let ?t = "lit ''Contact John Doe'' @ page_break"
    let ?out = "''/srv/bot/temp/tmpk3x9q2ab_redacted_'' @ basename ?p"
    have f: "files ?W ?p = Some ''%PDF-1.7''"
      and g: "files ?W ?out = None"
      by (simp_all add: example_world_def basename_def)
    have ex: "pdf_extract_text ?E failing_fitz ?W ?p = Inr ?t"
      by (rule example_pdf_extract [OF f]) (simp_all add: failing_fitz_def example_fitz_def)
    from failed_apply_not_surfaced [where env = ?E and w = ?W and p = ?p and t = ?t
           and a = contact_analysis and wa = "asked ?W ?t" and S = ?S and out = ?out
           and wb = "with_file (asked ?W ?t) ?out []"
           and wc = "with_file (asked ?W ?t) ?out []"
           and lib = failing_fitz and ilib = failing_imaging]
         ex pdf_text_not_blank example_run_prefix [OF g, of ?t]
         failing_pdf_apply [of "with_file (asked ?W ?t) ?out []" ?p "suggestions ?S" ?out]
    show ?thesis
      by (simp add: basename_def)
  qed
  have raster: "\<not> success (fst (img_process_file ?E failing_imaging
       (example_world ''/srv/bot/temp/card.png'' ''PNG'') ''/srv/bot/temp/card.png''))
   \<and> files (snd (img_process_file ?E failing_imaging
       (example_world ''/srv/bot/temp/card.png'' ''PNG'') ''/srv/bot/temp/card.png''))
       ''/srv/bot/temp/tmpk3x9q2ab_redacted_card.png'' \<noteq> None"
  proof -
    let ?p = "''/srv/bot/temp/card.png''"
    let ?W = "example_world ?p ''PNG''"
    let ?t = "lit ''Contact John Doe''"
    let ?out = "''/srv/bot/temp/tmpk3x9q2ab_redacted_'' @ basename ?p"
    have f: "files ?W ?p = Some ''PNG''"
      and g: "files ?W ?out = None"
      by (simp_all add: example_world_def basename_def)
    have ex: "img_extract_text ?E failing_imaging ?W ?p = Inr ?t"
      by (rule example_img_extract [OF f])
         (simp_all add: failing_imaging_def example_imaging_def)
    from failed_apply_not_surfaced [where env = ?E and w = ?W and p = ?p and t = ?t
           and a = contact_analysis and wa = "asked ?W ?t" and S = ?S and out = ?out
           and wb = "with_file (asked ?W ?t) ?out []"
           and wc = "with_file (asked ?W ?t) ?out []"
           and lib = failing_fitz and ilib = failing_imaging]
         ex img_text_not_blank example_run_prefix [OF g, of ?t]
         failing_img_apply [of ?E "with_file (asked ?W ?t) ?out []" ?p "suggestions ?S" ?out]
    show ?thesis
      by (simp add: basename_def)
  qed
  from plain paged raster show ?thesis
    by blast
qed

subsection \<open>The input file is never written\<close>

text \<open>
  Claim C7. For each of the three processors and every list of suggestions,
  \<open>apply_redactions\<close> changes no file other than the one at the output path, so the
  input file is as before whenever the output path differs from the input path. The
  output path that \<open>create_temp_file\<close> hands to the pipeline is a path at which no file
  existed, hence different from the path of the input; and \<open>process_file\<close> as a whole
  leaves every file that existed before the run, the input among them, unchanged.
\<close>

theorem apply_redactions_frame:
  fixes lib :: "('doc, 'rect) fitz" and ilib :: "'img imaging"
  shows
  "(p \<noteq> output_path \<longrightarrow>
      files (snd (txt_apply_redactions env w file_path redactions output_path)) p = files w p
      \<and> files (snd (pdf_apply_redactions lib w file_path redactions output_path)) p = files w p
      \<and> files (snd (img_apply_redactions env ilib w file_path redactions output_path)) p
          = files w p)
   \<and> (create_temp_file env w n = Inr (out, wb) \<longrightarrow> files w out = None)
   \<and> (files w p \<noteq> None \<longrightarrow>
      files (snd (txt_process_file env w file_path)) p = files w p
      \<and> files (snd (pdf_process_file env lib w file_path)) p = files w p
      \<and> files (snd (img_process_file env ilib w file_path)) p = files w p)"
  using create_temp_file_fresh [of env w n out wb]
  by (simp add: txt_apply_frame pdf_apply_frame img_apply_frame
        txt_process_keeps_files pdf_process_keeps_files img_process_keeps_files)

theorem apply_redactions_frame_witness:
  "''/srv/bot/temp/contact.txt'' \<noteq> ''/srv/bot/temp/tmpk3x9q2ab_redacted_contact.txt''
   \<and> files (snd (txt_apply_redactions (answering_env contact_analysis)
         (example_world ''/srv/bot/temp/contact.txt'' ''Contact John Doe at john@example.com'')
         ''/srv/bot/temp/contact.txt'' (suggestions contact_suggestion_set)
         ''/srv/bot/temp/tmpk3x9q2ab_redacted_contact.txt'')) ''/srv/bot/temp/contact.txt''
     = Some ''Contact John Doe at john@example.com''
   \<and> files (snd (pdf_apply_redactions (example_fitz 1)
         (example_world ''/srv/bot/temp/contact.txt'' ''Contact John Doe at john@example.com'')
         ''/srv/bot/temp/contact.txt'' (suggestions contact_suggestion_set)
         ''/srv/bot/temp/tmpk3x9q2ab_redacted_contact.txt'')) ''/srv/bot/temp/contact.txt''
     = Some ''Contact John Doe at john@example.com''
   \<and> files (snd (img_apply_redactions (answering_env contact_analysis)
         (example_imaging clear_ocr)
         (example_world ''/srv/bot/temp/contact.txt'' ''Contact John Doe at john@example.com'')
         ''/srv/bot/temp/contact.txt'' (suggestions contact_suggestion_set)
         ''/srv/bot/temp/tmpk3x9q2ab_redacted_contact.txt'')) ''/srv/bot/temp/contact.txt''
     = Some ''Contact John Doe at john@example.com''
   \<and> create_temp_file (answering_env contact_analysis)
         (example_world ''/srv/bot/temp/contact.txt'' ''Contact John Doe at john@example.com'')
         ''redacted_contact.txt''
     = Inr (''/srv/bot/temp/tmpk3x9q2ab_redacted_contact.txt'',
            with_file
              (example_world ''/srv/bot/temp/contact.txt''
                 ''Contact John Doe at john@example.com'')
              ''/srv/bot/temp/tmpk3x9q2ab_redacted_contact.txt'' [])
   \<and> files (example_world ''/srv/bot/temp/contact.txt''
               ''Contact John Doe at john@example.com'')
         ''/srv/bot/temp/tmpk3x9q2ab_redacted_contact.txt'' = None
   \<and> files (snd (txt_process_file (answering_env contact_analysis)
         (example_world ''/srv/bot/temp/contact.txt'' ''Contact John Doe at john@example.com'')
         ''/srv/bot/temp/contact.txt'')) ''/srv/bot/temp/contact.txt''
     = Some ''Contact John Doe at john@example.com''
   \<and> files (snd (pdf_process_file (answering_env contact_analysis) (example_fitz 1)
         (example_world ''/srv/bot/temp/contact.txt'' ''Contact John Doe at john@example.com'')
         ''/srv/bot/temp/contact.txt'')) ''/srv/bot/temp/contact.txt''
     = Some ''Contact John Doe at john@example.com''
   \<and> files (snd (img_process_file (answering_env contact_analysis)
         (example_imaging clear_ocr)
         (example_world ''/srv/bot/temp/contact.txt'' ''Contact John Doe at john@example.com'')
         ''/srv/bot/temp/contact.txt'')) ''/srv/bot/temp/contact.txt''
     = Some ''Contact John Doe at john@example.com''"
proof -
  let ?E = "answering_env contact_analysis"
  let ?p = "''/srv/bot/temp/contact.txt''"
  let ?W = "example_world ?p ''Contact John Doe at john@example.com''"
  let ?out = "''/srv/bot/temp/tmpk3x9q2ab_redacted_contact.txt''"
  have ne: "?p \<noteq> ?out"
    by simp
  have f: "files ?W ?p = Some ''Contact John Doe at john@example.com''"
    and g: "files ?W (''/srv/bot/temp/tmpk3x9q2ab_'' @ ''redacted_contact.txt'') = None"
    by (simp_all add: example_world_def)
  have cr: "create_temp_file ?E ?W ''redacted_contact.txt''
              = Inr (?out, with_file ?W ?out [])"
    using example_create_temp_file [OF g, of contact_analysis]
    by (simp add: with_file_def)
  from apply_redactions_frame [where env = ?E and w = ?W and p = ?p and file_path = ?p
         and output_path = ?out and redactions = "suggestions contact_suggestion_set"
         and lib = "example_fitz 1" and ilib = "example_imaging clear_ocr"
         and n = "''redacted_contact.txt''" and out = ?out and wb = "with_file ?W ?out []"]
       ne f cr
  show ?thesis
    by simp
qed

end
